theory Spec2Isabelle
  imports Complex_Main "HOL-Library.Multiset"
begin

section \<open>Strings\<close>

text \<open>
  JavaScript strings are modelled as \<open>string\<close>; a character beyond the range of
  \<open>char\<close> is the sequence of bytes of its UTF-8 encoding, on which containment and
  concatenation mean what they mean on the characters. Three of the string operations
  the two source files use are written out: \<open>String.prototype.includes\<close>,
  \<open>Array.prototype.join\<close> and the decimal rendering of an integer by \<open>String(n)\<close>
  or a template literal. The fourth, \<open>String.prototype.toLowerCase\<close>, is the case
  mapping of the Unicode standard the engine implements; it is a parameter of the
  model (a field of \<open>env\<close> below), of which nothing is assumed.
\<close>

fun startsWith :: "string \<Rightarrow> string \<Rightarrow> bool" where
  "startsWith s [] = True"
| "startsWith [] (c # cs) = False"
| "startsWith (x # xs) (c # cs) = (x = c \<and> startsWith xs cs)"

fun includes_str :: "string \<Rightarrow> string \<Rightarrow> bool" where
  "includes_str [] sub = (sub = [])"
| "includes_str (x # xs) sub = (startsWith (x # xs) sub \<or> includes_str xs sub)"

fun join :: "string list \<Rightarrow> string \<Rightarrow> string" where
  "join [] sep = []"
| "join [s] sep = s"
| "join (s # t # ss) sep = s @ sep @ join (t # ss) sep"

fun String_nat :: "nat \<Rightarrow> string" where
  "String_nat n =
     (if n < 10 then [''0123456789'' ! n]
      else String_nat (n div 10) @ [''0123456789'' ! (n mod 10)])"

declare String_nat.simps [simp del]

definition String_int :: "int \<Rightarrow> string" where
  "String_int i = (if i < 0 then ''-'' @ String_nat (nat (- i)) else String_nat (nat i))"

section \<open>Values, exceptions and outcomes\<close>

text \<open>
  What \<open>JSON.parse\<close> delivers, and what the program stores in its report, is a
  JavaScript value. A number is the rational it denotes. The counts the program reads
  are integers, whose sums, means and half-sums are taken exactly (as double precision
  takes them below \<open>2^53\<close>); the weighted score of
  \<open>assessCollaborationPotential\<close>, with its weights 0.3 and 0.4, is computed in
  double precision, every operation rounded. An object is the list of its own
  properties.
\<close>

datatype jsval =
    Undefined
  | Null
  | Bool bool
  | Num rat
  | Str string
  | Arr "jsval list"
  | Obj "(string \<times> jsval) list"

text \<open>
  A thrown value: an \<open>Error\<close> with its message, or the \<open>TypeError\<close> the engine
  raises when a property of \<open>null\<close> or \<open>undefined\<close> is read or a missing method is
  called (its message is never inspected by the program).
\<close>

datatype exn = Error string | TypeError

text \<open>
  A call returns, throws, or leaves this model: \<open>Unmodelled\<close> stands for the runs in
  which JavaScript coerces a non-number in an addition or stores a string as the count
  of a key inherited from \<open>Object.prototype\<close> in a counting object. No statement is
  made about such runs; \<open>try\<close>/\<open>catch\<close> does not catch \<open>Unmodelled\<close>.
\<close>

datatype 'a outcome = Returns 'a | Throws exn | Unmodelled

fun bind :: "'a outcome \<Rightarrow> ('a \<Rightarrow> 'b outcome) \<Rightarrow> 'b outcome" where
  "bind (Returns a) f = f a"
| "bind (Throws e) f = Throws e"
| "bind Unmodelled f = Unmodelled"

fun truthy :: "jsval \<Rightarrow> bool" where
  "truthy Undefined = False"
| "truthy Null = False"
| "truthy (Bool b) = b"
| "truthy (Num n) = (n \<noteq> 0)"
| "truthy (Str s) = (s \<noteq> [])"
| "truthy (Arr xs) = True"
| "truthy (Obj kvs) = True"

text \<open>\<open>a || b\<close> on values.\<close>

definition or_else :: "jsval \<Rightarrow> jsval \<Rightarrow> jsval" where
  "or_else a b = (if truthy a then a else b)"

text \<open>
  \<open>v.k\<close> for the property names the program reads (\<open>text\<close>, \<open>full_text\<close>,
  \<open>public_metrics\<close>, \<open>like_count\<close>, \<open>retweet_count\<close>, \<open>reply_count\<close>,
  \<open>created_at\<close>, \<open>author_handle\<close>, \<open>user\<close>, \<open>screen_name\<close>): none of them is a
  property of a primitive or of an array, so only an object can hold one.
\<close>

fun get_prop :: "jsval \<Rightarrow> string \<Rightarrow> jsval outcome" where
  "get_prop Undefined k = Throws TypeError"
| "get_prop Null k = Throws TypeError"
| "get_prop (Obj kvs) k = Returns (case map_of kvs k of Some v \<Rightarrow> v | None \<Rightarrow> Undefined)"
| "get_prop v k = Returns Undefined"

text \<open>\<open>v?.k\<close>: \<open>undefined\<close> when \<open>v\<close> is \<open>null\<close> or \<open>undefined\<close>; it never throws.\<close>

fun opt_prop :: "jsval \<Rightarrow> string \<Rightarrow> jsval" where
  "opt_prop (Obj kvs) k = (case map_of kvs k of Some v \<Rightarrow> v | None \<Rightarrow> Undefined)"
| "opt_prop v k = Undefined"

section \<open>bird-utils.js: the execution gateway\<close>

text \<open>
  The external tool and \<open>JSON.parse\<close> are parameters. \<open>execFile env args n\<close> is what
  the \<open>n\<close>-th invocation of the tool (counted over the whole run) does when called
  with \<open>args\<close>: it prints \<open>Stdout out\<close>, or the promise rejects with an error whose
  message is \<open>msg\<close>. The counter of invocations is the state every fetch threads. The
  pause between attempts and the console output are not modelled.
\<close>

datatype exec_result = Stdout string | Rejects string

record env =
  execFile :: "string list \<Rightarrow> nat \<Rightarrow> exec_result"
  JSON_parse :: "string \<Rightarrow> string + jsval"
  toLowerCase :: "string \<Rightarrow> string"

record exec_options =
  retries :: "int option"
  delay :: "int option"
  format :: "string option"

definition retries_of :: "exec_options \<Rightarrow> int" where
  "retries_of options = (case retries options of Some r \<Rightarrow> r | None \<Rightarrow> 3)"

definition format_of :: "exec_options \<Rightarrow> string" where
  "format_of options = (case format options of Some f \<Rightarrow> f | None \<Rightarrow> ''json'')"

definition finalArgs :: "string \<Rightarrow> string list \<Rightarrow> exec_options \<Rightarrow> string list" where
  "finalArgs command args options =
     (let jsonArgs = (if format_of options = ''json'' \<and> ''--json'' \<notin> set args
                      then [''--json''] else [])
      in command # args @ jsonArgs)"

definition is_auth_message :: "string \<Rightarrow> bool" where
  "is_auth_message msg = (includes_str msg ''auth'' \<or> includes_str msg ''cookie'')"

text \<open>
  The \<open>for\<close> loop of \<open>executeCommand\<close>, from \<open>attempt\<close> on; \<open>lastError\<close> is
  \<open>None\<close> while it is still \<open>undefined\<close>.
\<close>

function attempts :: "env \<Rightarrow> string \<Rightarrow> string list \<Rightarrow> int \<Rightarrow> int \<Rightarrow> exn option \<Rightarrow> nat
    \<Rightarrow> string outcome \<times> nat" where
  "attempts env command fargs rs attempt lastError n =
     (if attempt < rs then
        (case execFile env fargs n of
           Stdout out \<Rightarrow> (Returns out, Suc n)
         | Rejects msg \<Rightarrow>
             if is_auth_message msg
             then (Throws (Error (''Authentication error: '' @ msg)), Suc n)
             else attempts env command fargs rs (attempt + 1) (Some (Error msg)) (Suc n))
      else
        (Throws (case lastError of
                   Some e \<Rightarrow> e
                 | None \<Rightarrow> Error (''Command failed after '' @ String_int rs @ '' retries: ''
                                    @ command @ '' '' @ join fargs '' '')), n))"
  by pat_completeness auto
termination
  by (relation "measure (\<lambda>(env, command, fargs, rs, attempt, lastError, n). nat (rs - attempt))") auto

declare attempts.simps [simp del]

definition executeCommand :: "env \<Rightarrow> string \<Rightarrow> string list \<Rightarrow> exec_options \<Rightarrow> nat
    \<Rightarrow> string outcome \<times> nat" where
  "executeCommand env command args options n =
     attempts env command (finalArgs command args options) (retries_of options) 0 None n"

definition parseJSON :: "env \<Rightarrow> string \<Rightarrow> jsval outcome" where
  "parseJSON env jsonString =
     (case JSON_parse env jsonString of
        Inr v \<Rightarrow> Returns v
      | Inl msg \<Rightarrow> Throws (Error (''Failed to parse bird JSON output: '' @ msg)))"

text \<open>The options \<open>{ format: 'json' }\<close> every fetch passes to \<open>executeCommand\<close>.\<close>

definition json_format :: exec_options where
  "json_format = \<lparr>retries = None, delay = None, format = Some ''json''\<rparr>"

text \<open>\<open>Array.isArray(parsed) ? parsed : [parsed]\<close>.\<close>

fun as_list :: "jsval \<Rightarrow> jsval list" where
  "as_list (Arr xs) = xs"
| "as_list v = [v]"

text \<open>
  The body shared by \<open>search\<close>, \<open>getMentions\<close>, \<open>getBookmarks\<close>, \<open>getReplies\<close> and
  \<open>getThread\<close>, which differ in the subcommand and its arguments only: run the
  command, parse its output, wrap a non-array; any exception gives the empty list.
\<close>

definition fetch_list :: "env \<Rightarrow> string \<Rightarrow> string list \<Rightarrow> nat \<Rightarrow> jsval list \<times> nat" where
  "fetch_list env command args n =
     (case executeCommand env command args json_format n of
        (Returns result, n') \<Rightarrow>
          (case parseJSON env result of
             Returns parsed \<Rightarrow> (as_list parsed, n')
           | _ \<Rightarrow> ([], n'))
      | (_, n') \<Rightarrow> ([], n'))"

definition limit_of :: "int option \<Rightarrow> int" where
  "limit_of l = (case l of Some k \<Rightarrow> k | None \<Rightarrow> 10)"

definition search :: "env \<Rightarrow> string \<Rightarrow> int option \<Rightarrow> nat \<Rightarrow> jsval list \<times> nat" where
  "search env query limit n =
     fetch_list env ''search'' [''-n'', String_int (limit_of limit), query] n"

definition getMentions :: "env \<Rightarrow> int option \<Rightarrow> nat \<Rightarrow> jsval list \<times> nat" where
  "getMentions env limit n = fetch_list env ''mentions'' [''-n'', String_int (limit_of limit)] n"

definition getBookmarks :: "env \<Rightarrow> int option \<Rightarrow> nat \<Rightarrow> jsval list \<times> nat" where
  "getBookmarks env limit n = fetch_list env ''bookmarks'' [''-n'', String_int (limit_of limit)] n"

definition readTweet :: "env \<Rightarrow> string \<Rightarrow> nat \<Rightarrow> jsval \<times> nat" where
  "readTweet env tweetId n =
     (case executeCommand env ''read'' [tweetId] json_format n of
        (Returns result, n') \<Rightarrow>
          (case parseJSON env result of
             Returns parsed \<Rightarrow> (parsed, n')
           | _ \<Rightarrow> (Null, n'))
      | (_, n') \<Rightarrow> (Null, n'))"

definition getReplies :: "env \<Rightarrow> string \<Rightarrow> int option \<Rightarrow> nat \<Rightarrow> jsval list \<times> nat" where
  "getReplies env tweetId limit n =
     fetch_list env ''replies'' [''-n'', String_int (limit_of limit), tweetId] n"

definition getThread :: "env \<Rightarrow> string \<Rightarrow> nat \<Rightarrow> jsval list \<times> nat" where
  "getThread env tweetId n = fetch_list env ''thread'' [tweetId] n"

section \<open>bird-competitive-intel.js: the data of a report\<close>

text \<open>
  The objects the program builds with a fixed shape and computes on are records; the
  entries of \<open>topTweets\<close>, the insights and the recommendations, which it only stores
  (and, for \<open>topTweets\<close>, hands back to \<open>calculateAverageEngagement\<close>), stay the
  object literals the source writes.
\<close>

record 'n engagement =
  likes :: 'n
  retweets :: 'n
  replies :: 'n

record theme_entry =
  theme :: string
  frequency :: nat

record strength =
  score :: int
  level :: string

record collaboration = strength +
  reasoning :: string

record analysis =
  handle :: string
  tweetsAnalyzed :: nat
  topTweets :: "jsval list"
  averageEngagement :: "int engagement"
  contentThemes :: "theme_entry list"
  collaborationPotential :: "collaboration option"

record trend =
  keyword :: string
  tweetsFound :: nat
  trend_topTweets :: "jsval list"
  trendStrength :: strength
  contentGaps :: "string list"

record summary =
  competitorsTracked :: nat
  influencersTracked :: nat
  trendsIdentified :: nat
  insightsGenerated :: nat
  recommendationsProvided :: nat

record report =
  brand :: string
  timestamp :: string
  competitors :: "analysis list"
  influencers :: "analysis list"
  trends :: "trend list"
  insights :: "jsval list"
  recommendations :: "jsval list"
  summary :: "summary option"

record brand_config =
  cfg_keywords :: "string list option"
  cfg_competitors :: "string list option"
  cfg_influencers :: "string list option"

text \<open>The fields of a \<open>CompetitiveIntelligence\<close> instance.\<close>

record intel =
  this_brand :: string
  this_config :: brand_config
  this_timestamp :: string
  this_report :: report

text \<open>\<open>this.config.keywords || []\<close>, and the same for the two lists of handles.\<close>

definition or_empty :: "string list option \<Rightarrow> string list" where
  "or_empty l = (case l of Some xs \<Rightarrow> xs | None \<Rightarrow> [])"

text \<open>
  The clock and the file system are parameters: \<open>now\<close> is what
  \<open>new Date().toISOString()\<close> gives when the report is saved, and each file-system
  call may throw.
\<close>

record sys =
  now :: string
  existsSync :: "string \<Rightarrow> bool"
  mkdirSync :: "string \<Rightarrow> exn option"
  path_join :: "string \<Rightarrow> string \<Rightarrow> string"
  writeFileSync :: "string \<Rightarrow> report \<Rightarrow> exn option"

section \<open>Objects used as counters\<close>

text \<open>
  \<open>themes\<close>, \<open>competitorThemes\<close>, \<open>gapCounts\<close> and \<open>found\<close> are plain objects
  used as dictionaries: the list of their own properties in insertion order.
  \<open>obj[k] = (obj[k] || 0) + d\<close> reads an inherited property when \<open>k\<close> is not an own
  one and names a property of \<open>Object.prototype\<close>; that value is an object or a
  function, so the sum is a string and not a count. Under \<open>__proto__\<close> the
  assignment reaches the inherited accessor, which ignores a string: the object stays
  as it was. Under the other eleven names the string becomes an own property; an
  object holding it is outside this model.
\<close>

definition Object_prototype_keys :: "string list" where
  "Object_prototype_keys =
     [''constructor'', ''__defineGetter__'', ''__defineSetter__'', ''hasOwnProperty'',
      ''__lookupGetter__'', ''__lookupSetter__'', ''isPrototypeOf'', ''propertyIsEnumerable'',
      ''toString'', ''valueOf'', ''__proto__'', ''toLocaleString'']"

fun set_own :: "string \<Rightarrow> 'v \<Rightarrow> (string \<times> 'v) list \<Rightarrow> (string \<times> 'v) list" where
  "set_own k v [] = [(k, v)]"
| "set_own k v (p # ps) = (if fst p = k then (k, v) # ps else p # set_own k v ps)"

definition bump :: "(string \<times> nat) list \<Rightarrow> string \<Rightarrow> nat \<Rightarrow> (string \<times> nat) list outcome" where
  "bump obj k d =
     (case map_of obj k of
        Some c \<Rightarrow> Returns (set_own k (c + d) obj)
      | None \<Rightarrow> if k \<notin> set Object_prototype_keys then Returns (set_own k d obj)
                else if k = ''__proto__'' then Returns obj
                else Unmodelled)"

text \<open>
  The order in which \<open>Object.entries\<close> and \<open>Object.keys\<close> list the own properties:
  the keys that are array indices (canonical decimal numerals up to \<open>2^32 - 2\<close>) in
  ascending numeric order, then the other keys in insertion order.
\<close>

fun digits_value :: "string \<Rightarrow> int \<Rightarrow> int option" where
  "digits_value [] acc = Some acc"
| "digits_value (c # cs) acc =
     (case map_of (zip ''0123456789'' [0, 1, 2, 3, 4, 5, 6, 7, 8, 9]) c of
        Some d \<Rightarrow> digits_value cs (10 * acc + d)
      | None \<Rightarrow> None)"

definition array_index :: "string \<Rightarrow> int option" where
  "array_index k =
     (case digits_value k 0 of
        Some i \<Rightarrow> if k \<noteq> [] \<and> (k = ''0'' \<or> hd k \<noteq> CHR ''0'') \<and> i \<le> 4294967294
                  then Some i else None
      | None \<Rightarrow> None)"

definition entries :: "(string \<times> 'v) list \<Rightarrow> (string \<times> 'v) list" where
  "entries obj =
     sort_key (\<lambda>p. the (array_index (fst p))) (filter (\<lambda>p. array_index (fst p) \<noteq> None) obj)
     @ filter (\<lambda>p. array_index (fst p) = None) obj"

section \<open>Double-precision arithmetic\<close>

text \<open>
  A JavaScript number is an IEEE 754 binary64 value; a finite one is a rational
  \<open>m * 2^e\<close> with \<open>\<bar>m\<bar> < 2^53\<close>. \<open>binary64 x\<close> is the double nearest to the
  rational \<open>x\<close>, a tie going to the even significand: the value of a numeric literal,
  and of an arithmetic operation applied to its exact result. \<open>exponent x\<close> is the
  \<open>e\<close> with \<open>2^e \<le> \<bar>x\<bar> < 2^(e+1)\<close>; below \<open>2^-1022\<close> the spacing of the doubles
  stays that of the subnormal numbers. Overflow is not modelled: a result of magnitude
  \<open>2^1024\<close> or more, which JavaScript turns into \<open>Infinity\<close>, stays finite here.
\<close>

function bit_length :: "int \<Rightarrow> int" where
  "bit_length a = (if a \<le> 0 then 0 else bit_length (a div 2) + 1)"
  by pat_completeness auto

termination
  by (relation "measure nat") auto

declare bit_length.simps [simp del]

definition pow2 :: "int \<Rightarrow> rat" where
  "pow2 e = (if 0 \<le> e then 2 ^ nat e else 1 / 2 ^ nat (- e))"

definition exponent :: "rat \<Rightarrow> int" where
  "exponent x =
     (let a = fst (quotient_of \<bar>x\<bar>); b = snd (quotient_of \<bar>x\<bar>);
          e = bit_length a - bit_length b
      in if pow2 e \<le> \<bar>x\<bar> then e else e - 1)"

definition round_half_even :: "rat \<Rightarrow> int" where
  "round_half_even y =
     (let f = \<lfloor>y\<rfloor>; d = y - of_int f
      in if d < 1 / 2 then f else if 1 / 2 < d then f + 1 else if even f then f else f + 1)"

definition binary64 :: "rat \<Rightarrow> rat" where
  "binary64 x =
     (if x = 0 then 0
      else let q = pow2 (max (exponent x) (- 1022) - 52)
           in of_int (round_half_even (x / q)) * q)"

text \<open>\<open>x * y\<close>, \<open>x + y\<close> and \<open>x / y\<close> on doubles (\<open>y\<close> not 0 in the quotient).\<close>

definition fmul :: "rat \<Rightarrow> rat \<Rightarrow> rat" where
  "fmul x y = binary64 (x * y)"

definition fadd :: "rat \<Rightarrow> rat \<Rightarrow> rat" where
  "fadd x y = binary64 (x + y)"

definition fdiv :: "rat \<Rightarrow> rat \<Rightarrow> rat" where
  "fdiv x y = binary64 (x / y)"

section \<open>bird-competitive-intel.js: the statistics\<close>

text \<open>\<open>Math.round\<close>: the nearest integer, a tie going up.\<close>

definition Math_round :: "rat \<Rightarrow> int" where
  "Math_round x = \<lfloor>x + 1 / 2\<rfloor>"

text \<open>\<open>t.public_metrics?.k || 0\<close>.\<close>

definition metric :: "jsval \<Rightarrow> string \<Rightarrow> jsval outcome" where
  "metric t k = bind (get_prop t ''public_metrics'') (\<lambda>pm. Returns (or_else (opt_prop pm k) (Num 0)))"

text \<open>
  \<open>acc + v\<close> for a number \<open>acc\<close>: the sum when \<open>v\<close> is a number. For any other
  value JavaScript coerces, which is left out.
\<close>

fun plus_num :: "rat \<Rightarrow> jsval \<Rightarrow> rat outcome" where
  "plus_num a (Num b) = Returns (a + b)"
| "plus_num a v = Unmodelled"

text \<open>\<open>Array.prototype.reduce\<close> with a callback that may throw.\<close>

fun reduce :: "('b \<Rightarrow> 'a \<Rightarrow> 'b outcome) \<Rightarrow> 'a list \<Rightarrow> 'b \<Rightarrow> 'b outcome" where
  "reduce f [] acc = Returns acc"
| "reduce f (x # xs) acc =
     (case f acc x of
        Returns acc' \<Rightarrow> reduce f xs acc'
      | Throws e \<Rightarrow> Throws e
      | Unmodelled \<Rightarrow> Unmodelled)"

text \<open>\<open>Array.prototype.map\<close> with a callback that may throw.\<close>

fun map_outcome :: "('a \<Rightarrow> 'b outcome) \<Rightarrow> 'a list \<Rightarrow> 'b list outcome" where
  "map_outcome f [] = Returns []"
| "map_outcome f (x # xs) =
     (case f x of
        Returns y \<Rightarrow>
          (case map_outcome f xs of
             Returns ys \<Rightarrow> Returns (y # ys)
           | Throws e \<Rightarrow> Throws e
           | Unmodelled \<Rightarrow> Unmodelled)
      | Throws e \<Rightarrow> Throws e
      | Unmodelled \<Rightarrow> Unmodelled)"

definition add_metrics :: "rat engagement \<Rightarrow> jsval \<Rightarrow> rat engagement outcome" where
  "add_metrics acc t =
     bind (metric t ''like_count'') (\<lambda>a. bind (plus_num (likes acc) a) (\<lambda>l.
     bind (metric t ''retweet_count'') (\<lambda>b. bind (plus_num (retweets acc) b) (\<lambda>r.
     bind (metric t ''reply_count'') (\<lambda>c. bind (plus_num (replies acc) c) (\<lambda>p.
     Returns \<lparr>likes = l, retweets = r, replies = p\<rparr>))))))"

definition calculateAverageEngagement :: "jsval list \<Rightarrow> int engagement outcome" where
  "calculateAverageEngagement tweets =
     (if length tweets = 0 then Returns \<lparr>likes = 0, retweets = 0, replies = 0\<rparr>
      else bind (reduce add_metrics tweets \<lparr>likes = 0, retweets = 0, replies = 0\<rparr>) (\<lambda>totals.
        Returns \<lparr>likes = Math_round (likes totals / of_nat (length tweets)),
                 retweets = Math_round (retweets totals / of_nat (length tweets)),
                 replies = Math_round (replies totals / of_nat (length tweets))\<rparr>))"

text \<open>\<open>t.text || t.full_text\<close>.\<close>

definition text_of :: "jsval \<Rightarrow> jsval outcome" where
  "text_of t = bind (get_prop t ''text'') (\<lambda>a. if truthy a then Returns a else get_prop t ''full_text'')"

text \<open>\<open>v.toLowerCase()\<close>: only a string has the method.\<close>

fun lower :: "env \<Rightarrow> jsval \<Rightarrow> string outcome" where
  "lower env (Str s) = Returns (toLowerCase env s)"
| "lower env v = Throws TypeError"

definition lower_text :: "env \<Rightarrow> jsval \<Rightarrow> string outcome" where
  "lower_text env t = bind (text_of t) (lower env)"

text \<open>The two nested \<open>forEach\<close> loops of \<open>extractThemes\<close>.\<close>

definition count_keyword :: "env \<Rightarrow> string \<Rightarrow> (string \<times> nat) list \<Rightarrow> string \<Rightarrow> (string \<times> nat) list outcome" where
  "count_keyword env txt themes kw =
     (if includes_str txt (toLowerCase env kw) then bump themes kw 1 else Returns themes)"

definition count_tweet :: "env \<Rightarrow> string list \<Rightarrow> (string \<times> nat) list \<Rightarrow> jsval \<Rightarrow> (string \<times> nat) list outcome" where
  "count_tweet env kws themes tweet =
     bind (lower_text env tweet) (\<lambda>txt. reduce (count_keyword env txt) kws themes)"

definition extractThemes :: "env \<Rightarrow> brand_config \<Rightarrow> jsval list \<Rightarrow> theme_entry list outcome" where
  "extractThemes env config tweets =
     bind (reduce (count_tweet env (or_empty (cfg_keywords config))) tweets []) (\<lambda>themes.
       Returns (sort_key (\<lambda>e. - int (frequency e))
                  (map (\<lambda>(t, c). \<lparr>theme = t, frequency = c\<rparr>) (entries themes))))"

definition collaboration_level :: "int \<Rightarrow> string" where
  "collaboration_level s = (if s > 70 then ''high'' else if s > 40 then ''medium'' else ''low'')"

definition collaboration_reasoning :: "int \<Rightarrow> string" where
  "collaboration_reasoning s =
     (if s > 70 then ''Strong engagement - excellent collaboration target''
      else if s > 40 then ''Moderate engagement - consider for partnerships''
      else ''Lower engagement - monitor before outreach'')"

definition assessCollaborationPotential :: "jsval list \<Rightarrow> collaboration outcome" where
  "assessCollaborationPotential tweets =
     bind (calculateAverageEngagement tweets) (\<lambda>avgEngagement.
       let s = min 100 (Math_round
                 (fdiv (fadd (fadd (fmul (of_int (likes avgEngagement)) (binary64 0.3))
                                   (fmul (of_int (retweets avgEngagement)) (binary64 0.4)))
                             (fmul (of_int (replies avgEngagement)) (binary64 0.3)))
                       10))
       in Returns \<lparr>score = s, level = collaboration_level s,
                    reasoning = collaboration_reasoning s\<rparr>)"

definition calculateTrendStrength :: "jsval list \<Rightarrow> strength outcome" where
  "calculateTrendStrength tweets =
     bind (calculateAverageEngagement tweets) (\<lambda>avgEngagement.
       let s = (of_int (likes avgEngagement) + of_int (retweets avgEngagement)) / (2 :: rat)
       in Returns \<lparr>score = Math_round s,
                    level = (if s > 100 then ''strong'' else if s > 50 then ''moderate'' else ''weak'')\<rparr>)"

definition angles :: "(string \<times> string) list" where
  "angles =
     [(''how to'', ''tactical''),
      (''why'', ''educational''),
      (''case study'', ''proof''),
      (''mistake'', ''contrarian''),
      (''framework'', ''systematic'')]"

definition mark_missing :: "string \<Rightarrow> (string \<times> bool) list \<Rightarrow> string \<times> string \<Rightarrow> (string \<times> bool) list" where
  "mark_missing txt found angle =
     (if \<not> includes_str txt (fst angle) then set_own (snd angle) True found else found)"

definition identifyContentGaps :: "env \<Rightarrow> jsval list \<Rightarrow> string list outcome" where
  "identifyContentGaps env tweets =
     bind (map_outcome (lower_text env) tweets) (\<lambda>texts.
       let txt = join texts '' '';
           found = foldl (mark_missing txt) [] angles
       in Returns (map fst (entries found)))"

section \<open>bird-competitive-intel.js: the fetch phase\<close>

text \<open>The object literals stored in \<open>topTweets\<close>.\<close>

definition engagement_of :: "jsval \<Rightarrow> jsval outcome" where
  "engagement_of t =
     bind (metric t ''like_count'') (\<lambda>l.
     bind (metric t ''retweet_count'') (\<lambda>r.
     bind (metric t ''reply_count'') (\<lambda>p.
     Returns (Obj [(''likes'', l), (''retweets'', r), (''replies'', p)]))))"

definition top_tweet :: "jsval \<Rightarrow> jsval outcome" where
  "top_tweet t =
     bind (text_of t) (\<lambda>txt.
     bind (engagement_of t) (\<lambda>e.
     bind (get_prop t ''created_at'') (\<lambda>c.
     Returns (Obj [(''text'', txt), (''engagement'', e), (''createdAt'', c)]))))"

text \<open>\<open>t.author_handle || t.user?.screen_name\<close>.\<close>

definition author_of :: "jsval \<Rightarrow> jsval outcome" where
  "author_of t =
     bind (get_prop t ''author_handle'') (\<lambda>a.
       if truthy a then Returns a
       else bind (get_prop t ''user'') (\<lambda>u. Returns (opt_prop u ''screen_name'')))"

definition trend_tweet :: "jsval \<Rightarrow> jsval outcome" where
  "trend_tweet t =
     bind (text_of t) (\<lambda>txt.
     bind (author_of t) (\<lambda>a.
     bind (engagement_of t) (\<lambda>e.
     bind (get_prop t ''created_at'') (\<lambda>c.
     Returns (Obj [(''text'', txt), (''author'', a), (''engagement'', e), (''createdAt'', c)])))))"

text \<open>The \<open>analysis\<close> object of \<open>analyzeCompetitors\<close>, its properties in source order.\<close>

definition competitor_analysis :: "env \<Rightarrow> brand_config \<Rightarrow> string \<Rightarrow> jsval list \<Rightarrow> analysis outcome" where
  "competitor_analysis env config competitor tweets =
     bind (map_outcome top_tweet tweets) (\<lambda>tops.
     bind (calculateAverageEngagement tweets) (\<lambda>avg.
     bind (extractThemes env config tweets) (\<lambda>themes.
     Returns \<lparr>handle = competitor, tweetsAnalyzed = length tweets, topTweets = tops,
              averageEngagement = avg, contentThemes = themes,
              collaborationPotential = None\<rparr>)))"

definition influencer_analysis :: "env \<Rightarrow> brand_config \<Rightarrow> string \<Rightarrow> jsval list \<Rightarrow> analysis outcome" where
  "influencer_analysis env config influencer tweets =
     bind (map_outcome top_tweet tweets) (\<lambda>tops.
     bind (calculateAverageEngagement tweets) (\<lambda>avg.
     bind (extractThemes env config tweets) (\<lambda>themes.
     bind (assessCollaborationPotential tweets) (\<lambda>potential.
     Returns \<lparr>handle = influencer, tweetsAnalyzed = length tweets, topTweets = tops,
              averageEngagement = avg, contentThemes = themes,
              collaborationPotential = Some potential\<rparr>))))"

definition trend_entry :: "env \<Rightarrow> string \<Rightarrow> jsval list \<Rightarrow> trend outcome" where
  "trend_entry env kw tweets =
     bind (map_outcome trend_tweet tweets) (\<lambda>tops.
     bind (calculateTrendStrength tweets) (\<lambda>st.
     bind (identifyContentGaps env tweets) (\<lambda>gaps.
     Returns \<lparr>keyword = kw, tweetsFound = length tweets, trend_topTweets = tops,
              trendStrength = st, contentGaps = gaps\<rparr>)))"

text \<open>
  One turn of each \<open>for\<close> loop: the search, and inside \<open>try\<close> the entry and its
  \<open>push\<close>; a caught exception leaves the report as it was.
\<close>

definition analyzeCompetitor :: "env \<Rightarrow> intel \<times> nat \<Rightarrow> string \<Rightarrow> (intel \<times> nat) outcome" where
  "analyzeCompetitor env st competitor =
     (case search env (''from:'' @ competitor) (Some 5) (snd st) of
        (tweets, n') \<Rightarrow>
          if length tweets > 0 then
            (case competitor_analysis env (this_config (fst st)) competitor tweets of
               Returns a \<Rightarrow>
                 Returns ((fst st)\<lparr>this_report := (this_report (fst st))
                            \<lparr>competitors := competitors (this_report (fst st)) @ [a]\<rparr>\<rparr>, n')
             | Throws e \<Rightarrow> Returns (fst st, n')
             | Unmodelled \<Rightarrow> Unmodelled)
          else Returns (fst st, n'))"

definition analyzeCompetitors :: "env \<Rightarrow> intel \<Rightarrow> nat \<Rightarrow> (intel \<times> nat) outcome" where
  "analyzeCompetitors env this n =
     reduce (analyzeCompetitor env) (or_empty (cfg_competitors (this_config this))) (this, n)"

definition analyzeInfluencer :: "env \<Rightarrow> intel \<times> nat \<Rightarrow> string \<Rightarrow> (intel \<times> nat) outcome" where
  "analyzeInfluencer env st influencer =
     (case search env (''from:'' @ influencer) (Some 5) (snd st) of
        (tweets, n') \<Rightarrow>
          if length tweets > 0 then
            (case influencer_analysis env (this_config (fst st)) influencer tweets of
               Returns a \<Rightarrow>
                 Returns ((fst st)\<lparr>this_report := (this_report (fst st))
                            \<lparr>influencers := influencers (this_report (fst st)) @ [a]\<rparr>\<rparr>, n')
             | Throws e \<Rightarrow> Returns (fst st, n')
             | Unmodelled \<Rightarrow> Unmodelled)
          else Returns (fst st, n'))"

definition analyzeInfluencers :: "env \<Rightarrow> intel \<Rightarrow> nat \<Rightarrow> (intel \<times> nat) outcome" where
  "analyzeInfluencers env this n =
     reduce (analyzeInfluencer env) (or_empty (cfg_influencers (this_config this))) (this, n)"

definition identifyTrend :: "env \<Rightarrow> intel \<times> nat \<Rightarrow> string \<Rightarrow> (intel \<times> nat) outcome" where
  "identifyTrend env st kw =
     (case search env kw (Some 5) (snd st) of
        (tweets, n') \<Rightarrow>
          if length tweets > 0 then
            (case trend_entry env kw tweets of
               Returns t \<Rightarrow>
                 Returns ((fst st)\<lparr>this_report := (this_report (fst st))
                            \<lparr>trends := trends (this_report (fst st)) @ [t]\<rparr>\<rparr>, n')
             | Throws e \<Rightarrow> Returns (fst st, n')
             | Unmodelled \<Rightarrow> Unmodelled)
          else Returns (fst st, n'))"

definition identifyTrends :: "env \<Rightarrow> intel \<Rightarrow> nat \<Rightarrow> (intel \<times> nat) outcome" where
  "identifyTrends env this n =
     reduce (identifyTrend env) (take 3 (or_empty (cfg_keywords (this_config this)))) (this, n)"

section \<open>bird-competitive-intel.js: insights and recommendations\<close>

definition add_theme :: "(string \<times> nat) list \<Rightarrow> theme_entry \<Rightarrow> (string \<times> nat) list outcome" where
  "add_theme acc t = bump acc (theme t) (frequency t)"

definition competitor_positioning :: "report \<Rightarrow> jsval outcome" where
  "competitor_positioning r =
     bind (reduce add_theme (concat (map contentThemes (competitors r))) []) (\<lambda>competitorThemes.
       let sorted = sort_key (\<lambda>p. - int (snd p)) (entries competitorThemes);
           name = (case sorted of [] \<Rightarrow> ''unknown''
                   | topTheme # rest \<Rightarrow> if fst topTheme = [] then ''unknown'' else fst topTheme);
           mentions = (case sorted of [] \<Rightarrow> 0 | topTheme # rest \<Rightarrow> snd topTheme)
       in Returns (Obj
            [(''type'', Str ''competitor-positioning''),
             (''description'', Str (''Competitors heavily focus on '' @ [CHR 0x22] @ name
                @ [CHR 0x22] @ '' ('' @ String_int (int mentions) @ '' mentions)'')),
             (''actionable'', Str ''Consider differentiating with other angles like frameworks, case studies, or contrarian takes'')]))"

text \<open>\<open>i.collaborationPotential.score > 70\<close>, which throws on an entry without the property.\<close>

definition high_potential :: "analysis \<Rightarrow> bool outcome" where
  "high_potential i =
     (case collaborationPotential i of
        None \<Rightarrow> Throws TypeError
      | Some c \<Rightarrow> Returns (score c > 70))"

text \<open>\<open>Array.prototype.filter\<close> with a callback that may throw.\<close>

fun filter_outcome :: "('a \<Rightarrow> bool outcome) \<Rightarrow> 'a list \<Rightarrow> 'a list outcome" where
  "filter_outcome f [] = Returns []"
| "filter_outcome f (x # xs) =
     (case f x of
        Returns b \<Rightarrow>
          (case filter_outcome f xs of
             Returns ys \<Rightarrow> Returns (if b then x # ys else ys)
           | Throws e \<Rightarrow> Throws e
           | Unmodelled \<Rightarrow> Unmodelled)
      | Throws e \<Rightarrow> Throws e
      | Unmodelled \<Rightarrow> Unmodelled)"

definition collaboration_opportunity :: "analysis list \<Rightarrow> jsval" where
  "collaboration_opportunity highPotential =
     Obj [(''type'', Str ''collaboration-opportunity''),
          (''description'', Str (String_int (int (length highPotential))
             @ '' influencer(s) with high collaboration potential'')),
          (''targets'', Arr (map (\<lambda>i. Str (''@'' @ handle i)) highPotential)),
          (''actionable'', Str ''Prioritize outreach to high-potential influencers'')]"

definition trend_opportunity :: "trend list \<Rightarrow> jsval" where
  "trend_opportunity strongTrends =
     Obj [(''type'', Str ''trend-opportunity''),
          (''description'', Str (String_int (int (length strongTrends))
             @ '' strong trend(s) in niche'')),
          (''trends'', Arr (map (\<lambda>t. Str ([CHR 0x22] @ keyword t @ [CHR 0x22] @ '' (strength: ''
             @ String_int (score (trendStrength t)) @ '')'')) strongTrends)),
          (''actionable'', Str ''Create content around strong trends for higher engagement'')]"

definition generateInsights :: "intel \<Rightarrow> intel outcome" where
  "generateInsights this =
     (let r = this_report this in
      bind (if length (competitors r) > 0
            then bind (competitor_positioning r) (\<lambda>i. Returns [i])
            else Returns []) (\<lambda>first.
      bind (if length (influencers r) > 0
            then bind (filter_outcome high_potential (influencers r)) (\<lambda>highPotential.
                   Returns (if length highPotential > 0
                            then [collaboration_opportunity highPotential] else []))
            else Returns []) (\<lambda>second.
      let strongTrends = filter (\<lambda>t. level (trendStrength t) = ''strong'') (trends r);
          third = (if length (trends r) > 0 \<and> length strongTrends > 0
                   then [trend_opportunity strongTrends] else [])
      in Returns (this\<lparr>this_report := r\<lparr>insights := insights r @ first @ second @ third\<rparr>\<rparr>))))"

definition content_opportunity :: "string \<times> nat \<Rightarrow> jsval" where
  "content_opportunity e =
     Obj [(''type'', Str ''content-opportunity''),
          (''content'', Str (fst e)),
          (''priority'', Str (if snd e > 1 then ''high'' else ''medium'')),
          (''reasoning'', Str (''Missing '' @ [CHR 0x22] @ fst e @ [CHR 0x22] @ '' angle across ''
             @ String_int (int (snd e)) @ '' trends''))]"

definition engagement_strategy :: jsval where
  "engagement_strategy =
     Obj [(''type'', Str ''engagement-strategy''),
          (''strategy'', Str ''question-driven''),
          (''priority'', Str ''high''),
          (''reasoning'', Str ''High reply rate suggests question-based content works well'')]"

definition posting_strategy :: jsval where
  "posting_strategy =
     Obj [(''type'', Str ''posting-strategy''),
          (''frequency'', Str ''daily''),
          (''priority'', Str ''high''),
          (''reasoning'', Str ''Competitors maintain daily posting for niche relevance'')]"

definition generateRecommendations :: "intel \<Rightarrow> intel outcome" where
  "generateRecommendations this =
     (let r = this_report this;
          gaps = concat (map contentGaps (trends r))
      in
      bind (reduce (\<lambda>acc g. bump acc g 1) gaps []) (\<lambda>gapCounts.
      let opportunities = map content_opportunity (filter (\<lambda>e. snd e > 0) (entries gapCounts)) in
      bind (calculateAverageEngagement (concat (map topTweets (competitors r)))) (\<lambda>avgEngagement.
      let optimization = (if replies avgEngagement > likes avgEngagement
                          then [engagement_strategy] else [])
      in Returns (this\<lparr>this_report := r\<lparr>recommendations :=
            recommendations r @ opportunities @ optimization @ [posting_strategy]\<rparr>\<rparr>))))"

section \<open>Saving the report and the whole run\<close>

definition saveResults :: "sys \<Rightarrow> string \<Rightarrow> report \<Rightarrow> string \<Rightarrow> string outcome" where
  "saveResults sys filename data brandName =
     (let dir = ''brands/'' @ brandName @ ''/content/06-analytics/twitter-insights'' in
      case (if \<not> existsSync sys dir then mkdirSync sys dir else None) of
        Some e \<Rightarrow> Throws e
      | None \<Rightarrow>
          (let filepath = path_join sys dir filename in
           case writeFileSync sys filepath data of
             Some e \<Rightarrow> Throws e
           | None \<Rightarrow> Returns filepath))"

definition saveReport :: "sys \<Rightarrow> intel \<Rightarrow> intel outcome" where
  "saveReport sys this =
     (let date = takeWhile (\<lambda>c. c \<noteq> CHR ''T'') (now sys);
          filename = ''competitor-intel-'' @ date @ ''.json'';
          r = this_report this;
          r' = r\<lparr>summary := Some \<lparr>competitorsTracked = length (competitors r),
                                    influencersTracked = length (influencers r),
                                    trendsIdentified = length (trends r),
                                    insightsGenerated = length (insights r),
                                    recommendationsProvided = length (recommendations r)\<rparr>\<rparr>
      in bind (saveResults sys filename r' (this_brand this)) (\<lambda>filepath.
           Returns (this\<lparr>this_report := r'\<rparr>)))"

record run_options =
  competitorsOnly :: bool
  influencersOnly :: bool

text \<open>
  The constructor, given the configuration \<open>getBrandConfig\<close> found for the brand and
  the time of construction.
\<close>

definition CompetitiveIntelligence :: "string \<Rightarrow> brand_config \<Rightarrow> string \<Rightarrow> intel" where
  "CompetitiveIntelligence brandName config time =
     \<lparr>this_brand = brandName, this_config = config, this_timestamp = time,
      this_report = \<lparr>brand = brandName, timestamp = time, competitors = [], influencers = [],
                     trends = [], insights = [], recommendations = [], summary = None\<rparr>\<rparr>"

text \<open>
  \<open>run\<close> returns \<open>this.report\<close>: the \<open>this_report\<close> of the instance returned here,
  together with the counter of tool invocations. Its \<open>catch\<close> rethrows.
\<close>

definition run :: "env \<Rightarrow> sys \<Rightarrow> intel \<Rightarrow> run_options \<Rightarrow> nat \<Rightarrow> (intel \<times> nat) outcome" where
  "run env sys this options n =
     bind (if \<not> influencersOnly options then analyzeCompetitors env this n
           else Returns (this, n)) (\<lambda>s1.
     bind (if \<not> competitorsOnly options then analyzeInfluencers env (fst s1) (snd s1)
           else Returns s1) (\<lambda>s2.
     bind (identifyTrends env (fst s2) (snd s2)) (\<lambda>s3.
     bind (generateInsights (fst s3)) (\<lambda>i.
     bind (generateRecommendations i) (\<lambda>g.
     bind (saveReport sys g) (\<lambda>saved. Returns (saved, snd s3)))))))"

section \<open>Notions used in the statements\<close>

text \<open>
  Every attempt \<open>executeCommand\<close> can make from invocation \<open>n\<close> on is rejected with a
  message that names neither \<open>auth\<close> nor \<open>cookie\<close>.
\<close>

definition all_attempts_transient :: "env \<Rightarrow> string \<Rightarrow> string list \<Rightarrow> exec_options \<Rightarrow> nat \<Rightarrow> bool" where
  "all_attempts_transient env command args options n =
     (\<forall>j < nat (retries_of options).
        \<exists>m. execFile env (finalArgs command args options) (n + j) = Rejects m
             \<and> \<not> is_auth_message m)"

text \<open>
  The command succeeds (at whichever attempt), leaving the counter at \<open>n'\<close>, and its
  output parses to the single object with the properties \<open>kvs\<close>.
\<close>

definition single_object :: "env \<Rightarrow> string \<Rightarrow> string list \<Rightarrow> nat \<Rightarrow> (string \<times> jsval) list \<Rightarrow> nat \<Rightarrow> bool" where
  "single_object env command args n kvs n' =
     (\<exists>out. executeCommand env command args json_format n = (Returns out, n')
            \<and> JSON_parse env out = Inr (Obj kvs))"

text \<open>
  The case mapping on strings of ASCII characters, where only the letters A to Z have
  a lowercase form: the examples, whose strings are ASCII, take it for
  \<open>toLowerCase\<close>.
\<close>

definition ascii_lower_char :: "char \<Rightarrow> char" where
  "ascii_lower_char c =
     (case map_of (zip ''ABCDEFGHIJKLMNOPQRSTUVWXYZ'' ''abcdefghijklmnopqrstuvwxyz'') c of
        Some l \<Rightarrow> l
      | None \<Rightarrow> c)"

definition ascii_lower :: "string \<Rightarrow> string" where
  "ascii_lower s = map ascii_lower_char s"

text \<open>Example tools: one whose \<open>n\<close>-th invocation is rejected with the \<open>n\<close>-th message
  of a list (and prints an empty array afterwards), and one that prints a single object.\<close>

definition rejects_in_turn :: "string list \<Rightarrow> env" where
  "rejects_in_turn msgs =
     \<lparr>execFile = (\<lambda>args n. if n < length msgs then Rejects (msgs ! n) else Stdout ''[]''),
      JSON_parse = (\<lambda>s. if s = ''[]'' then Inr (Arr []) else Inl ''Unexpected end of JSON input''),
      toLowerCase = ascii_lower\<rparr>"

definition one_object_text :: string where
  "one_object_text =
     ''{'' @ [CHR 0x22] @ ''id'' @ [CHR 0x22] @ '':'' @ [CHR 0x22] @ ''20'' @ [CHR 0x22] @ ''}''"

definition prints_object :: env where
  "prints_object =
     \<lparr>execFile = (\<lambda>args n. Stdout one_object_text),
      JSON_parse = (\<lambda>s. if s = one_object_text then Inr (Obj [(''id'', Str ''20'')])
                         else Inl ''Unexpected end of JSON input''),
      toLowerCase = ascii_lower\<rparr>"

text \<open>
  A post, as the tool delivers it: an object whose like, retweet and reply counts, read
  through \<open>public_metrics\<close>, are numbers where they are present (a missing or falsy
  count reads as 0). \<open>stat k t\<close> is the count post \<open>t\<close> records under \<open>k\<close>.
\<close>

definition count_value :: "jsval \<Rightarrow> rat" where
  "count_value v = (case v of Num x \<Rightarrow> x | _ \<Rightarrow> 0)"

definition count_like :: "jsval \<Rightarrow> bool" where
  "count_like v = (case v of Num x \<Rightarrow> True | _ \<Rightarrow> \<not> truthy v)"

definition stat :: "string \<Rightarrow> jsval \<Rightarrow> rat" where
  "stat k t = count_value (opt_prop (opt_prop t ''public_metrics'') k)"

definition is_post :: "jsval \<Rightarrow> bool" where
  "is_post t =
     (case t of
        Obj kvs \<Rightarrow> list_all (\<lambda>k. count_like (opt_prop (opt_prop t ''public_metrics'') k))
                     [''like_count'', ''retweet_count'', ''reply_count'']
      | _ \<Rightarrow> False)"

definition nonneg_counts :: "jsval \<Rightarrow> bool" where
  "nonneg_counts t =
     list_all (\<lambda>k. 0 \<le> stat k t) [''like_count'', ''retweet_count'', ''reply_count'']"

text \<open>The mean of a list of numbers, 0 for the empty list.\<close>

definition mean :: "rat list \<Rightarrow> rat" where
  "mean xs = (if xs = [] then 0 else sum_list xs / of_nat (length xs))"

text \<open>
  The unit roundoff of double precision. \<open>approximates k x y\<close>: \<open>x\<close> is \<open>y\<close> up to \<open>k\<close>
  roundings, each of relative error at most \<open>2^-53\<close>. \<open>zero_or_above t x\<close>: \<open>x\<close> is 0 or
  at least \<open>t\<close>, so that rounding it does not underflow.
\<close>

definition roundoff :: rat where
  "roundoff = 1 / 2 ^ 53"

definition approximates :: "nat \<Rightarrow> rat \<Rightarrow> rat \<Rightarrow> bool" where
  "approximates k x y = ((1 - roundoff) ^ k * y \<le> x \<and> x \<le> (1 + roundoff) ^ k * y)"

definition zero_or_above :: "rat \<Rightarrow> rat \<Rightarrow> bool" where
  "zero_or_above t x = (x = 0 \<or> t \<le> x)"

text \<open>Example posts.\<close>

definition post :: "string \<Rightarrow> rat \<Rightarrow> rat \<Rightarrow> rat \<Rightarrow> jsval" where
  "post txt l r p =
     Obj [(''text'', Str txt),
          (''public_metrics'',
           Obj [(''like_count'', Num l), (''retweet_count'', Num r), (''reply_count'', Num p)])]"

text \<open>An insight or a recommendation of a given \<open>type\<close>.\<close>

definition has_type :: "string \<Rightarrow> jsval \<Rightarrow> bool" where
  "has_type ty v = (opt_prop v ''type'' = Str ty)"

text \<open>
  The worked example: one keyword, one competitor, no influencer; every call of the tool
  prints a text (written \<open>[post]\<close> here) that \<open>JSON.parse\<close> reads as the array of one
  post with the given counts; saving succeeds.
\<close>

definition prints_post :: "rat \<Rightarrow> rat \<Rightarrow> rat \<Rightarrow> env" where
  "prints_post l r p =
     \<lparr>execFile = (\<lambda>args n. Stdout ''[post]''),
      JSON_parse = (\<lambda>s. if s = ''[post]'' then Inr (Arr [post ''why x?'' l r p])
                         else Inl ''Unexpected end of JSON input''),
      toLowerCase = ascii_lower\<rparr>"

definition example_sys :: sys where
  "example_sys =
     \<lparr>now = ''2026-01-02T03:04:05.000Z'',
      existsSync = (\<lambda>dir. True),
      mkdirSync = (\<lambda>dir. None),
      path_join = (\<lambda>dir filename. dir @ ''/'' @ filename),
      writeFileSync = (\<lambda>filepath data. None)\<rparr>"

definition example_config :: brand_config where
  "example_config =
     \<lparr>cfg_keywords = Some [''x''], cfg_competitors = Some [''a''], cfg_influencers = Some []\<rparr>"

definition example_intel :: intel where
  "example_intel = CompetitiveIntelligence ''b'' example_config ''2026-01-02T03:04:00.000Z''"

text \<open>The instance of the worked example after the fetch phase, and its one insight.\<close>

definition example_fetched :: intel where
  "example_fetched =
     example_intel\<lparr>this_report := (this_report example_intel)
       \<lparr>competitors :=
          [\<lparr>handle = ''a'', tweetsAnalyzed = 1,
            topTweets =
              [Obj [(''text'', Str ''why x?''),
                    (''engagement'',
                     Obj [(''likes'', Num 100), (''retweets'', Num 50), (''replies'', Num 10)]),
                    (''createdAt'', Undefined)]],
            averageEngagement = \<lparr>likes = 100, retweets = 50, replies = 10\<rparr>,
            contentThemes = [\<lparr>theme = ''x'', frequency = 1\<rparr>],
            collaborationPotential = None\<rparr>],
        trends :=
          [\<lparr>keyword = ''x'', tweetsFound = 1,
            trend_topTweets =
              [Obj [(''text'', Str ''why x?''),
                    (''author'', Undefined),
                    (''engagement'',
                     Obj [(''likes'', Num 100), (''retweets'', Num 50), (''replies'', Num 10)]),
                    (''createdAt'', Undefined)]],
            trendStrength = \<lparr>score = 75, level = ''moderate''\<rparr>,
            contentGaps = [''tactical'', ''proof'', ''contrarian'', ''systematic'']\<rparr>]\<rparr>\<rparr>"


text \<open>The count a stored top post carries under \<open>k\<close> in its \<open>engagement\<close>, its mean over
  the top posts of all competitor entries of a report, and the options of a full run.\<close>

definition top_stat :: "string \<Rightarrow> jsval \<Rightarrow> rat" where
  "top_stat k tt = count_value (opt_prop (opt_prop tt ''engagement'') k)"

definition top_mean :: "string \<Rightarrow> report \<Rightarrow> rat" where
  "top_mean k r = mean (map (top_stat k) (concat (map topTweets (competitors r))))"

definition both_categories :: run_options where
  "both_categories = \<lparr>competitorsOnly = False, influencersOnly = False\<rparr>"

text \<open>
  The text of a post (\<open>text\<close>, or \<open>full_text\<close> when \<open>text\<close> is missing or empty); a post
  has a text when that value is a string. \<open>joined_text\<close> is the lowercased texts of a
  list of posts joined by single spaces, and a post mentions a keyword when its
  lowercased text contains the lowercased keyword.
\<close>

definition post_text :: "jsval \<Rightarrow> string" where
  "post_text t =
     (case or_else (opt_prop t ''text'') (opt_prop t ''full_text'') of Str s \<Rightarrow> s | _ \<Rightarrow> [])"

definition has_text :: "jsval \<Rightarrow> bool" where
  "has_text t =
     (case t of
        Obj kvs \<Rightarrow>
          (case or_else (opt_prop t ''text'') (opt_prop t ''full_text'') of
             Str s \<Rightarrow> True
           | _ \<Rightarrow> False)
      | _ \<Rightarrow> False)"


definition mentions :: "env \<Rightarrow> jsval \<Rightarrow> string \<Rightarrow> bool" where
  "mentions env t k = includes_str (toLowerCase env (post_text t)) (toLowerCase env k)"

text \<open>An engine whose strings are ASCII, for the examples that start no tool.\<close>

definition ascii_engine :: env where
  "ascii_engine =
     \<lparr>execFile = (\<lambda>args n. Stdout ''[]''),
      JSON_parse = (\<lambda>s. if s = ''[]'' then Inr (Arr []) else Inl ''Unexpected end of JSON input''),
      toLowerCase = ascii_lower\<rparr>"

text \<open>The configuration and the posts of the worked example of \<open>extractThemes\<close>.\<close>

definition three_keywords :: brand_config where
  "three_keywords =
     \<lparr>cfg_keywords = Some [''AI automation'', ''Claude Code'', ''newsletter growth''],
      cfg_competitors = None, cfg_influencers = None\<rparr>"

definition two_theme_posts :: "jsval list" where
  "two_theme_posts =
     [post ''claude code rocks'' 1 1 1, post ''AI Automation with Claude CODE'' 3 0 2]"

text \<open>A configuration whose one keyword is \<open>__proto__\<close>, and a post that mentions it.\<close>

definition proto_keyword :: brand_config where
  "proto_keyword =
     \<lparr>cfg_keywords = Some [''__proto__''], cfg_competitors = None, cfg_influencers = None\<rparr>"

definition proto_post :: jsval where
  "proto_post = post ''Why __proto__ is deprecated'' 3 1 0"

text \<open>
  An entry of \<open>topTweets\<close> as the fetch phase stores it: an object without a
  \<open>public_metrics\<close> property. An instance is fetched when the top posts of all its
  competitor entries are such.
\<close>

definition stored_top :: "jsval \<Rightarrow> bool" where
  "stored_top tt =
     (case tt of Obj kvs \<Rightarrow> map_of kvs ''public_metrics'' = None | _ \<Rightarrow> False)"

definition fetched :: "intel \<Rightarrow> bool" where
  "fetched this =
     list_all (\<lambda>c. list_all stored_top (topTweets c)) (competitors (this_report this))"

section \<open>The execution gateway: theorems\<close>

lemma attempts_auth:
  assumes "attempt + int k < rs"
    and "\<forall>j<k. \<exists>m. execFile env fargs (n + j) = Rejects m \<and> \<not> is_auth_message m"
    and "execFile env fargs (n + k) = Rejects msg"
    and "is_auth_message msg"
  shows "attempts env command fargs rs attempt lastError n
           = (Throws (Error (''Authentication error: '' @ msg)), n + k + 1)"
  using assms
proof (induction k arbitrary: attempt lastError n)
  case 0
  then show ?case by (simp add: attempts.simps)
next
  case (Suc k)
  from Suc.prems(2) obtain m where m: "execFile env fargs n = Rejects m" "\<not> is_auth_message m"
    by force
  have lt: "attempt < rs" using Suc.prems(1) by simp
  have ih: "attempts env command fargs rs (attempt + 1) (Some (Error m)) (Suc n)
      = (Throws (Error (''Authentication error: '' @ msg)), Suc n + k + 1)"
  proof (rule Suc.IH)
    show "attempt + 1 + int k < rs" using Suc.prems(1) by simp
    show "\<forall>j<k. \<exists>m. execFile env fargs (Suc n + j) = Rejects m \<and> \<not> is_auth_message m"
      using Suc.prems(2) by (metis Suc_less_eq add_Suc_shift)
    show "execFile env fargs (Suc n + k) = Rejects msg" using Suc.prems(3) by simp
    show "is_auth_message msg" by (rule Suc.prems(4))
  qed
  show ?case
    by (subst attempts.simps) (simp add: lt m ih)
qed

lemma attempts_exhaust:
  assumes "attempt + int (Suc k) = rs"
    and "\<forall>j<Suc k. \<exists>m. execFile env fargs (n + j) = Rejects m \<and> \<not> is_auth_message m"
    and "execFile env fargs (n + k) = Rejects msg"
  shows "attempts env command fargs rs attempt lastError n = (Throws (Error msg), n + Suc k)"
  using assms
proof (induction k arbitrary: attempt lastError n)
  case 0
  then show ?case by (simp add: attempts.simps)
next
  case (Suc k)
  from Suc.prems(2) obtain m where m: "execFile env fargs n = Rejects m" "\<not> is_auth_message m"
    by force
  have lt: "attempt < rs" using Suc.prems(1) by simp
  have ih: "attempts env command fargs rs (attempt + 1) (Some (Error m)) (Suc n)
      = (Throws (Error msg), Suc n + Suc k)"
  proof (rule Suc.IH)
    show "attempt + 1 + int (Suc k) = rs" using Suc.prems(1) by simp
    show "\<forall>j<Suc k. \<exists>m. execFile env fargs (Suc n + j) = Rejects m \<and> \<not> is_auth_message m"
      using Suc.prems(2) by (metis Suc_less_eq add_Suc_shift)
    show "execFile env fargs (Suc n + k) = Rejects msg" using Suc.prems(3) by simp
  qed
  show ?case
    by (subst attempts.simps) (simp add: lt m ih)
qed

lemma executeCommand_exhaust:
  assumes "0 < retries_of options" and "all_attempts_transient env command args options n"
  shows "\<exists>m. execFile env (finalArgs command args options) (n + nat (retries_of options) - 1) = Rejects m
      \<and> executeCommand env command args options n = (Throws (Error m), n + nat (retries_of options))"
proof -
  obtain k where k: "nat (retries_of options) = Suc k"
    using assms(1) by (metis Suc_pred zero_less_nat_eq)
  have all: "\<forall>j<Suc k. \<exists>m. execFile env (finalArgs command args options) (n + j) = Rejects m
      \<and> \<not> is_auth_message m"
    using assms(2) k by (simp add: all_attempts_transient_def)
  then obtain m where m: "execFile env (finalArgs command args options) (n + k) = Rejects m"
    by blast
  have "0 + int (Suc k) = retries_of options" using k assms(1) by linarith
  from attempts_exhaust [OF this all m]
  have "executeCommand env command args options n = (Throws (Error m), n + Suc k)"
    by (simp add: executeCommand_def)
  with m k show ?thesis by simp
qed

lemma retries_of_json_format: "retries_of json_format = 3"
  by (simp add: retries_of_def json_format_def)

lemma fetch_list_exhaust:
  assumes "all_attempts_transient env command args json_format n"
  shows "fetch_list env command args n = ([], n + 3)"
proof -
  from executeCommand_exhaust [of json_format env command args n] assms retries_of_json_format
  obtain m where "executeCommand env command args json_format n = (Throws (Error m), n + 3)"
    by auto
  then show ?thesis by (simp add: fetch_list_def)
qed

lemma readTweet_exhaust:
  assumes "all_attempts_transient env ''read'' [tweetId] json_format n"
  shows "readTweet env tweetId n = (Null, n + 3)"
proof -
  from executeCommand_exhaust [of json_format env "''read''" "[tweetId]" n] assms
    retries_of_json_format
  obtain m where "executeCommand env ''read'' [tweetId] json_format n = (Throws (Error m), n + 3)"
    by auto
  then show ?thesis by (simp add: readTweet_def)
qed

lemma fetch_list_single_object:
  assumes "single_object env command args n kvs n'"
  shows "fetch_list env command args n = ([Obj kvs], n')"
  using assms by (auto simp: single_object_def fetch_list_def parseJSON_def)

lemma readTweet_single_object:
  assumes "single_object env ''read'' [tweetId] n kvs n'"
  shows "readTweet env tweetId n = (Obj kvs, n')"
  using assms by (auto simp: single_object_def readTweet_def parseJSON_def)

text \<open>
  C1. Whatever the command, its arguments and the options: when attempt number \<open>k\<close> of
  \<open>executeCommand\<close> is made (it is within the retry limit and the attempts before it
  failed otherwise) and is rejected with a message containing \<open>auth\<close> or \<open>cookie\<close>, the
  call throws \<open>Authentication error: \<close> followed by that message and the tool has been
  invoked \<open>k + 1\<close> times: no attempt follows. With \<open>k = 0\<close> that is exactly one attempt.
\<close>

theorem executeCommand_auth_error_no_retry:
  assumes "int k < retries_of options"
    and "\<forall>j<k. \<exists>m. execFile env (finalArgs command args options) (n + j) = Rejects m
            \<and> \<not> (includes_str m ''auth'' \<or> includes_str m ''cookie'')"
    and "execFile env (finalArgs command args options) (n + k) = Rejects msg"
    and "includes_str msg ''auth'' \<or> includes_str msg ''cookie''"
  shows "executeCommand env command args options n
           = (Throws (Error (''Authentication error: '' @ msg)), n + k + 1)"
  unfolding executeCommand_def
  by (rule attempts_auth) (use assms in \<open>simp_all add: is_auth_message_def\<close>)

theorem executeCommand_auth_error_no_retry_witness:
  "execFile (rejects_in_turn [''Missing cookie ct0''])
       (finalArgs ''search'' [''-n'', ''5'', ''from:a''] json_format) 0 = Rejects ''Missing cookie ct0''
   \<and> includes_str ''Missing cookie ct0'' ''cookie''
   \<and> executeCommand (rejects_in_turn [''Missing cookie ct0'']) ''search''
         [''-n'', ''5'', ''from:a''] json_format 0
       = (Throws (Error ''Authentication error: Missing cookie ct0''), 1)
   \<and> execFile (rejects_in_turn [''socket hang up'', ''401 unauthorized''])
       (finalArgs ''search'' [''-n'', ''5'', ''from:a''] json_format) 0 = Rejects ''socket hang up''
   \<and> \<not> (includes_str ''socket hang up'' ''auth'' \<or> includes_str ''socket hang up'' ''cookie'')
   \<and> execFile (rejects_in_turn [''socket hang up'', ''401 unauthorized''])
       (finalArgs ''search'' [''-n'', ''5'', ''from:a''] json_format) 1 = Rejects ''401 unauthorized''
   \<and> includes_str ''401 unauthorized'' ''auth''
   \<and> executeCommand (rejects_in_turn [''socket hang up'', ''401 unauthorized'']) ''search''
         [''-n'', ''5'', ''from:a''] json_format 0
       = (Throws (Error ''Authentication error: 401 unauthorized''), 2)"
  using executeCommand_auth_error_no_retry [of 0 json_format
      "rejects_in_turn [''Missing cookie ct0'']"
      "''search''" "[''-n'', ''5'', ''from:a'']" 0 "''Missing cookie ct0''"]
    executeCommand_auth_error_no_retry [of 1 json_format
      "rejects_in_turn [''socket hang up'', ''401 unauthorized'']"
      "''search''" "[''-n'', ''5'', ''from:a'']" 0 "''401 unauthorized''"]
  by (simp add: retries_of_json_format rejects_in_turn_def)

text \<open>
  C2. When \<open>executeCommand\<close> is allowed at least one attempt and every one of its
  \<open>retries\<close> attempts is rejected with a message that names neither \<open>auth\<close> nor
  \<open>cookie\<close>, it throws the error of the last attempt after exactly \<open>retries\<close>
  invocations. Each of \<open>search\<close>, \<open>getMentions\<close>, \<open>getBookmarks\<close>, \<open>getReplies\<close> and
  \<open>getThread\<close>, whose three attempts all fail so, returns the empty list, and
  \<open>readTweet\<close> returns \<open>null\<close>: the failure is a value, not an exception.
\<close>

theorem transient_failures_are_swallowed:
  "(0 < retries_of options \<and> all_attempts_transient env command args options n \<longrightarrow>
      (\<exists>m. execFile env (finalArgs command args options) (n + nat (retries_of options) - 1)
              = Rejects m
          \<and> executeCommand env command args options n
              = (Throws (Error m), n + nat (retries_of options))))
   \<and> (all_attempts_transient env ''search'' [''-n'', String_int (limit_of limit), query]
          json_format n \<longrightarrow>
        search env query limit n = ([], n + 3))
   \<and> (all_attempts_transient env ''mentions'' [''-n'', String_int (limit_of limit)]
          json_format n \<longrightarrow>
        getMentions env limit n = ([], n + 3))
   \<and> (all_attempts_transient env ''bookmarks'' [''-n'', String_int (limit_of limit)]
          json_format n \<longrightarrow>
        getBookmarks env limit n = ([], n + 3))
   \<and> (all_attempts_transient env ''replies'' [''-n'', String_int (limit_of limit), tweetId]
          json_format n \<longrightarrow>
        getReplies env tweetId limit n = ([], n + 3))
   \<and> (all_attempts_transient env ''thread'' [tweetId] json_format n \<longrightarrow>
        getThread env tweetId n = ([], n + 3))
   \<and> (all_attempts_transient env ''read'' [tweetId] json_format n \<longrightarrow>
        readTweet env tweetId n = (Null, n + 3))"
  using executeCommand_exhaust [of options env command args n]
  by (simp add: search_def getMentions_def getBookmarks_def getReplies_def getThread_def
      fetch_list_exhaust readTweet_exhaust)

lemma three_timeouts_transient:
  "all_attempts_transient
     (rejects_in_turn [''socket hang up'', ''ETIMEDOUT'', ''rate limit exceeded''])
     command args json_format 0"
  by (simp add: all_attempts_transient_def retries_of_json_format rejects_in_turn_def
      is_auth_message_def less_Suc_eq numeral_3_eq_3)

theorem transient_failures_are_swallowed_witness:
  "0 < retries_of json_format
   \<and> all_attempts_transient
        (rejects_in_turn [''socket hang up'', ''ETIMEDOUT'', ''rate limit exceeded''])
        ''search'' [''-n'', ''5'', ''from:a''] json_format 0
   \<and> executeCommand (rejects_in_turn [''socket hang up'', ''ETIMEDOUT'', ''rate limit exceeded''])
        ''search'' [''-n'', ''5'', ''from:a''] json_format 0
       = (Throws (Error ''rate limit exceeded''), 3)
   \<and> search (rejects_in_turn [''socket hang up'', ''ETIMEDOUT'', ''rate limit exceeded''])
        ''from:a'' (Some 5) 0 = ([], 3)
   \<and> getMentions (rejects_in_turn [''socket hang up'', ''ETIMEDOUT'', ''rate limit exceeded''])
        (Some 5) 0 = ([], 3)
   \<and> getBookmarks (rejects_in_turn [''socket hang up'', ''ETIMEDOUT'', ''rate limit exceeded''])
        (Some 5) 0 = ([], 3)
   \<and> getReplies (rejects_in_turn [''socket hang up'', ''ETIMEDOUT'', ''rate limit exceeded''])
        ''20'' (Some 5) 0 = ([], 3)
   \<and> getThread (rejects_in_turn [''socket hang up'', ''ETIMEDOUT'', ''rate limit exceeded''])
        ''20'' 0 = ([], 3)
   \<and> readTweet (rejects_in_turn [''socket hang up'', ''ETIMEDOUT'', ''rate limit exceeded''])
        ''20'' 0 = (Null, 3)"
proof -
  let ?env = "rejects_in_turn [''socket hang up'', ''ETIMEDOUT'', ''rate limit exceeded'']"
  have five: "String_int (limit_of (Some 5)) = ''5''"
    by (simp add: limit_of_def String_int_def String_nat.simps)
  have last_msg: "execFile ?env (finalArgs ''search'' [''-n'', ''5'', ''from:a''] json_format) 2
      = Rejects ''rate limit exceeded''"
    by (simp add: rejects_in_turn_def)
  from transient_failures_are_swallowed [of json_format ?env "''search''"
      "[''-n'', ''5'', ''from:a'']" 0 "Some 5" "''from:a''" "''20''"]
  show ?thesis
    using three_timeouts_transient last_msg
    by (simp add: retries_of_json_format five)
qed

text \<open>
  C3, as the source has it. When the command of \<open>search\<close>, \<open>getMentions\<close>,
  \<open>getBookmarks\<close>, \<open>getReplies\<close> or \<open>getThread\<close> succeeds and its output parses to a
  single object, the operation returns the one-element list holding that object.
  \<open>readTweet\<close>, documented to return an object, returns the parsed object itself.
\<close>

theorem list_fetches_wrap_single_object:
  "(single_object env ''search'' [''-n'', String_int (limit_of limit), query] n kvs n' \<longrightarrow>
      search env query limit n = ([Obj kvs], n'))
   \<and> (single_object env ''mentions'' [''-n'', String_int (limit_of limit)] n kvs n' \<longrightarrow>
        getMentions env limit n = ([Obj kvs], n'))
   \<and> (single_object env ''bookmarks'' [''-n'', String_int (limit_of limit)] n kvs n' \<longrightarrow>
        getBookmarks env limit n = ([Obj kvs], n'))
   \<and> (single_object env ''replies'' [''-n'', String_int (limit_of limit), tweetId] n kvs n' \<longrightarrow>
        getReplies env tweetId limit n = ([Obj kvs], n'))
   \<and> (single_object env ''thread'' [tweetId] n kvs n' \<longrightarrow>
        getThread env tweetId n = ([Obj kvs], n'))
   \<and> (single_object env ''read'' [tweetId] n kvs n' \<longrightarrow>
        readTweet env tweetId n = (Obj kvs, n'))"
  by (simp add: search_def getMentions_def getBookmarks_def getReplies_def getThread_def
      fetch_list_single_object readTweet_single_object)

lemma prints_object_single:
  "single_object prints_object command args 0 [(''id'', Str ''20'')] 1"
  by (simp add: single_object_def executeCommand_def retries_of_json_format attempts.simps
      prints_object_def)

theorem list_fetches_wrap_single_object_witness:
  "single_object prints_object ''search'' [''-n'', ''10'', ''from:a''] 0 [(''id'', Str ''20'')] 1
   \<and> search prints_object ''from:a'' None 0 = ([Obj [(''id'', Str ''20'')]], 1)
   \<and> getMentions prints_object None 0 = ([Obj [(''id'', Str ''20'')]], 1)
   \<and> getBookmarks prints_object None 0 = ([Obj [(''id'', Str ''20'')]], 1)
   \<and> getReplies prints_object ''20'' None 0 = ([Obj [(''id'', Str ''20'')]], 1)
   \<and> getThread prints_object ''20'' 0 = ([Obj [(''id'', Str ''20'')]], 1)
   \<and> readTweet prints_object ''20'' 0 = (Obj [(''id'', Str ''20'')], 1)"
  using list_fetches_wrap_single_object [of prints_object None "''from:a''" 0
      "[(''id'', Str ''20'')]" 1 "''20''"] prints_object_single
  by simp

text \<open>
  C3, as the claim states it, fails for \<open>readTweet\<close>: the tool prints a single object and
  \<open>readTweet\<close> returns that object, not the array holding it.
\<close>

theorem readTweet_returns_bare_object:
  "single_object prints_object ''read'' [''20''] 0 [(''id'', Str ''20'')] 1
   \<and> fst (readTweet prints_object ''20'' 0) = Obj [(''id'', Str ''20'')]
   \<and> fst (readTweet prints_object ''20'' 0) \<noteq> Arr [Obj [(''id'', Str ''20'')]]"
  using readTweet_single_object [OF prints_object_single [of "''read''" "[''20'']"]]
    prints_object_single [of "''read''" "[''20'']"]
  by simp

section \<open>Double-precision arithmetic: theorems\<close>

text \<open>
  Known doubles: the literals 0.1 and 0.3, the sum \<open>0.1 + 0.2\<close> (which is
  \<open>0.30000000000000004\<close>), and \<open>2^53 + 1\<close>, a tie that goes to the even \<open>2^53\<close>.
\<close>

lemma binary64_known_values:
  "binary64 0.1 = 3602879701896397 / 36028797018963968"
  "binary64 0.3 = 5404319552844595 / 18014398509481984"
  "fadd (binary64 0.1) (binary64 0.2) = 1351079888211149 / 4503599627370496"
  "binary64 (2 ^ 53 + 1) = 2 ^ 53"
  by code_simp+

lemma pow2_pos: "0 < pow2 e"
  by (simp add: pow2_def)

lemma pow2_powi: "pow2 e = 2 powi e"
  by (simp add: pow2_def power_int_def field_simps)

lemma pow2_add: "pow2 (i + j) = pow2 i * pow2 j"
  by (simp add: pow2_powi power_int_add)

lemma pow2_Suc: "pow2 (e + 1) = 2 * pow2 e"
  by (simp add: pow2_powi power_int_add)

lemma pow2_mono: "i \<le> j \<Longrightarrow> pow2 i \<le> pow2 j"
  by (simp add: pow2_powi power_int_increasing)

lemma pow2_less_cancel: "pow2 i < pow2 j \<Longrightarrow> i < j"
  using pow2_mono [of j i] by (cases "i < j") auto

text \<open>\<open>bit_length a\<close> is the number of binary digits of \<open>a\<close>, and \<open>exponent x\<close> the binary
  exponent of \<open>x\<close>.\<close>

lemma bit_length_bounds:
  "0 < a \<Longrightarrow> 0 < bit_length a \<and> 2 ^ nat (bit_length a - 1) \<le> a \<and> a < 2 ^ nat (bit_length a)"
proof (induction a rule: bit_length.induct)
  case (1 a)
  show ?case
  proof (cases "a div 2 = 0")
    case True
    with \<open>0 < a\<close> have "a = 1" by presburger
    then show ?thesis by (simp add: bit_length.simps [of 1] bit_length.simps [of 0])
  next
    case False
    with \<open>0 < a\<close> have pos: "0 < a div 2" by presburger
    from "1.IH" [OF _ pos] \<open>0 < a\<close>
    have ih: "0 < bit_length (a div 2)" "2 ^ nat (bit_length (a div 2) - 1) \<le> a div 2"
      "a div 2 < 2 ^ nat (bit_length (a div 2))"
      by simp_all
    have bl: "bit_length a = bit_length (a div 2) + 1"
      using \<open>0 < a\<close> by (simp add: bit_length.simps [of a])
    define n where "n = nat (bit_length (a div 2) - 1)"
    have n1: "nat (bit_length (a div 2)) = Suc n"
      using ih(1) by (simp add: n_def)
    have "2 ^ Suc n \<le> 2 * (a div 2)"
      using ih(2) by (simp add: n_def)
    also have "\<dots> \<le> a" by presburger
    finally have lo: "2 ^ Suc n \<le> a" .
    have "a div 2 + 1 \<le> 2 ^ Suc n"
      using ih(3) by (simp add: n1)
    then have "2 * (a div 2) + 2 \<le> 2 * 2 ^ Suc n" by simp
    moreover have "a < 2 * (a div 2) + 2" by presburger
    ultimately have hi: "a < 2 ^ Suc (Suc n)" by simp
    have "nat (bit_length a - 1) = Suc n" "nat (bit_length a) = Suc (Suc n)"
      using ih(1) by (simp_all add: bl n_def)
    with lo hi ih(1) bl show ?thesis by simp
  qed
qed

lemma pow2_nat: "0 \<le> n \<Longrightarrow> (2 :: rat) ^ nat n = pow2 n"
  by (simp add: pow2_def)

lemma exponent_bounds:
  assumes "x \<noteq> 0"
  shows "pow2 (exponent x) \<le> \<bar>x\<bar> \<and> \<bar>x\<bar> < pow2 (exponent x + 1)"
proof -
  obtain a b where q: "quotient_of \<bar>x\<bar> = (a, b)"
    by (cases "quotient_of \<bar>x\<bar>")
  from q have b: "0 < b" by (rule quotient_of_denom_pos)
  from q have x: "\<bar>x\<bar> = of_int a / of_int b" by (rule quotient_of_div)
  from assms have "0 < \<bar>x\<bar>" by simp
  with x b have a: "0 < a" by (simp add: zero_less_divide_iff)
  define la where "la = bit_length a"
  define lb where "lb = bit_length b"
  from bit_length_bounds [OF a] have A: "0 < la" "2 ^ nat (la - 1) \<le> a" "a < 2 ^ nat la"
    by (simp_all add: la_def)
  from bit_length_bounds [OF b] have B: "0 < lb" "2 ^ nat (lb - 1) \<le> b" "b < 2 ^ nat lb"
    by (simp_all add: lb_def)
  have ra: "pow2 (la - 1) \<le> of_int a" "of_int a < pow2 la"
  proof -
    have "(2 :: rat) ^ nat (la - 1) = of_int (2 ^ nat (la - 1))" by simp
    also have "\<dots> \<le> of_int a" using A(2) by (simp only: of_int_le_iff)
    finally show "pow2 (la - 1) \<le> of_int a" using A(1) by (simp add: pow2_nat)
    have "(of_int a :: rat) < of_int (2 ^ nat la)" using A(3) by (simp only: of_int_less_iff)
    also have "\<dots> = 2 ^ nat la" by simp
    finally show "of_int a < pow2 la" using A(1) by (simp add: pow2_nat)
  qed
  have rb: "pow2 (lb - 1) \<le> of_int b" "of_int b < pow2 lb"
  proof -
    have "(2 :: rat) ^ nat (lb - 1) = of_int (2 ^ nat (lb - 1))" by simp
    also have "\<dots> \<le> of_int b" using B(2) by (simp only: of_int_le_iff)
    finally show "pow2 (lb - 1) \<le> of_int b" using B(1) by (simp add: pow2_nat)
    have "(of_int b :: rat) < of_int (2 ^ nat lb)" using B(3) by (simp only: of_int_less_iff)
    also have "\<dots> = 2 ^ nat lb" by simp
    finally show "of_int b < pow2 lb" using B(1) by (simp add: pow2_nat)
  qed
  have bpos: "(0 :: rat) < of_int b" using b by simp
  have lo: "pow2 (la - lb - 1) < \<bar>x\<bar>"
  proof -
    have "pow2 (la - lb - 1) * of_int b < pow2 (la - lb - 1) * pow2 lb"
      using rb(2) pow2_pos [of "la - lb - 1"] by simp
    also have "\<dots> = pow2 (la - 1)"
      by (simp add: pow2_add [symmetric])
    also have "\<dots> \<le> of_int a" by (rule ra(1))
    finally show ?thesis using bpos by (simp add: x pos_less_divide_eq)
  qed
  have hi: "\<bar>x\<bar> < pow2 (la - lb + 1)"
  proof -
    have "of_int a < pow2 la" by (rule ra(2))
    also have "\<dots> = pow2 (la - lb + 1) * pow2 (lb - 1)"
      by (simp add: pow2_add [symmetric])
    also have "\<dots> \<le> pow2 (la - lb + 1) * of_int b"
      using rb(1) pow2_pos [of "la - lb + 1"] by simp
    finally show ?thesis using bpos by (simp add: x pos_divide_less_eq)
  qed
  show ?thesis
  proof (cases "pow2 (la - lb) \<le> \<bar>x\<bar>")
    case True
    then have "exponent x = la - lb"
      by (simp add: exponent_def q la_def lb_def Let_def)
    with True hi show ?thesis by simp
  next
    case False
    then have "exponent x = la - lb - 1"
      by (simp add: exponent_def q la_def lb_def Let_def)
    with False lo show ?thesis by simp
  qed
qed

text \<open>
  In the normal range, rounding to the nearest double changes a number by at most
  \<open>2^-53\<close> of its magnitude.
\<close>

lemma round_half_even_nearest: "\<bar>of_int (round_half_even y) - y\<bar> \<le> 1 / 2"
proof -
  define f where "f = \<lfloor>y\<rfloor>"
  have f: "of_int f \<le> y" "y < of_int f + 1"
    unfolding f_def by linarith+
  consider "y - of_int f < 1 / 2" | "1 / 2 < y - of_int f" | "y - of_int f = 1 / 2"
    by linarith
  then show ?thesis
  proof cases
    case 1
    then have "round_half_even y = f"
      by (simp add: round_half_even_def Let_def f_def)
    with 1 f show ?thesis by simp
  next
    case 2
    then have "round_half_even y = f + 1"
      by (simp add: round_half_even_def Let_def f_def)
    with 2 f show ?thesis by simp
  next
    case 3
    then have "round_half_even y = f \<or> round_half_even y = f + 1"
      by (simp add: round_half_even_def Let_def f_def)
    with 3 f show ?thesis by auto
  qed
qed

lemma binary64_error:
  assumes "pow2 (- 1022) \<le> \<bar>x\<bar>"
  shows "\<bar>binary64 x - x\<bar> \<le> \<bar>x\<bar> * roundoff"
proof -
  from assms pow2_pos [of "- 1022"] have nz: "x \<noteq> 0" by auto
  define e where "e = exponent x"
  from exponent_bounds [OF nz] have eb: "pow2 e \<le> \<bar>x\<bar>" "\<bar>x\<bar> < pow2 (e + 1)"
    by (simp_all add: e_def)
  from assms eb(2) have "pow2 (- 1022) < pow2 (e + 1)" by simp
  then have "- 1022 < e + 1" by (rule pow2_less_cancel)
  then have m: "max e (- 1022) = e" by simp
  define q where "q = pow2 (e - 52)"
  have qpos: "0 < q" by (simp add: q_def pow2_pos)
  have b: "binary64 x = of_int (round_half_even (x / q)) * q"
    using nz by (simp add: binary64_def Let_def e_def [symmetric] m q_def)
  have "\<bar>binary64 x - x\<bar> = \<bar>of_int (round_half_even (x / q)) - x / q\<bar> * q"
  proof -
    have "binary64 x - x = (of_int (round_half_even (x / q)) - x / q) * q"
      using qpos by (simp add: b field_simps)
    then show ?thesis using qpos by (simp add: abs_mult)
  qed
  also have "\<dots> \<le> 1 / 2 * q"
    using round_half_even_nearest [of "x / q"] qpos by (intro mult_right_mono) simp_all
  also have "\<dots> = pow2 e / 2 ^ 53"
  proof -
    have "pow2 e = pow2 (e - 52) * pow2 52" by (simp add: pow2_add [symmetric])
    then show ?thesis by (simp add: q_def pow2_def)
  qed
  also have "\<dots> \<le> \<bar>x\<bar> / 2 ^ 53"
    using eb(1) by (simp add: divide_right_mono)
  finally show ?thesis by (simp add: roundoff_def)
qed

lemma roundoff_bounds: "0 < roundoff" "roundoff < 1 / 2"
  by (simp_all add: roundoff_def)

lemma pow2_tiny: "1 / 1024 \<le> x \<Longrightarrow> pow2 (- 1022) \<le> x"
proof -
  assume "1 / 1024 \<le> x"
  have "pow2 (- 1022) \<le> pow2 (- 10)" by (rule pow2_mono) simp
  also have "\<dots> = 1 / 1024" by (simp add: pow2_def)
  finally show ?thesis using \<open>1 / 1024 \<le> x\<close> by simp
qed

lemma binary64_between:
  assumes "1 / 1024 \<le> x"
  shows "(1 - roundoff) * x \<le> binary64 x" "binary64 x \<le> (1 + roundoff) * x"
proof -
  from assms have pos: "0 < x" by simp
  from assms have "pow2 (- 1022) \<le> \<bar>x\<bar>" using pow2_tiny [of x] by simp
  from binary64_error [OF this] pos have "\<bar>binary64 x - x\<bar> \<le> x * roundoff" by simp
  then show "(1 - roundoff) * x \<le> binary64 x" "binary64 x \<le> (1 + roundoff) * x"
    by (simp_all add: abs_le_iff algebra_simps)
qed

lemma binary64_half:
  assumes "1 / 1024 \<le> x"
  shows "x / 2 \<le> binary64 x"
proof -
  from assms have pos: "0 < x" by simp
  have "1 / 2 \<le> 1 - roundoff" using roundoff_bounds by simp
  then have "1 / 2 * x \<le> (1 - roundoff) * x" using pos by (intro mult_right_mono) simp_all
  also have "\<dots> \<le> binary64 x" by (rule binary64_between(1) [OF assms])
  finally show ?thesis by simp
qed

lemma binary64_zero: "binary64 0 = 0"
  by (simp add: binary64_def)

lemma approximates_mono:
  assumes "approximates k x y" and "k \<le> k'" and "0 \<le> y"
  shows "approximates k' x y"
proof -
  have "(1 - roundoff) ^ k' \<le> (1 - roundoff) ^ k"
    using assms(2) roundoff_bounds by (intro power_decreasing) simp_all
  then have "(1 - roundoff) ^ k' * y \<le> (1 - roundoff) ^ k * y"
    using assms(3) by (rule mult_right_mono)
  moreover have "(1 + roundoff) ^ k \<le> (1 + roundoff) ^ k'"
    using assms(2) roundoff_bounds by (intro power_increasing) simp_all
  then have "(1 + roundoff) ^ k * y \<le> (1 + roundoff) ^ k' * y"
    using assms(3) by (rule mult_right_mono)
  ultimately show ?thesis using assms(1) by (simp add: approximates_def)
qed

lemma approximates_add:
  assumes "approximates k x1 y1" and "approximates k x2 y2"
  shows "approximates k (x1 + x2) (y1 + y2)"
  using assms by (simp add: approximates_def distrib_left add_mono)

lemma approximates_scale:
  assumes "approximates k x y" and "0 \<le> c"
  shows "approximates k (c * x) (c * y)"
proof -
  from assms have "c * ((1 - roundoff) ^ k * y) \<le> c * x" "c * x \<le> c * ((1 + roundoff) ^ k * y)"
    by (simp_all add: approximates_def mult_left_mono)
  then show ?thesis by (simp add: approximates_def mult.left_commute)
qed

lemma approximates_nonneg: "approximates k x y \<Longrightarrow> 0 \<le> y \<Longrightarrow> 0 \<le> x"
proof -
  assume w: "approximates k x y" and y: "0 \<le> y"
  have "0 \<le> (1 - roundoff) ^ k" using roundoff_bounds by simp
  with y have "0 \<le> (1 - roundoff) ^ k * y" by simp
  with w show ?thesis by (simp add: approximates_def)
qed

lemma approximates_binary64:
  assumes "approximates k x y" and "0 \<le> y" and "zero_or_above t x" and "1 / 1024 \<le> t"
  shows "approximates (Suc k) (binary64 x) y \<and> zero_or_above (t / 2) (binary64 x)"
proof (cases "x = 0")
  case True
  have "0 < (1 - roundoff) ^ k" using roundoff_bounds by simp
  moreover from assms(1) True have "(1 - roundoff) ^ k * y \<le> 0" by (simp add: approximates_def)
  ultimately have "y \<le> 0" by (simp add: mult_le_0_iff not_le [symmetric])
  with assms(2) have "y = 0" by simp
  with True show ?thesis by (simp add: approximates_def binary64_zero zero_or_above_def)
next
  case False
  with assms(3,4) have x: "1 / 1024 \<le> x" "t \<le> x" by (simp_all add: zero_or_above_def)
  from assms(1) have w: "(1 - roundoff) ^ k * y \<le> x" "x \<le> (1 + roundoff) ^ k * y"
    by (simp_all add: approximates_def)
  have r: "0 \<le> 1 - roundoff" "0 \<le> 1 + roundoff" using roundoff_bounds by simp_all
  have "(1 - roundoff) ^ Suc k * y = (1 - roundoff) * ((1 - roundoff) ^ k * y)"
    by simp
  also have "\<dots> \<le> (1 - roundoff) * x"
    using w(1) r(1) by (rule mult_left_mono)
  also have "\<dots> \<le> binary64 x" by (rule binary64_between(1) [OF x(1)])
  finally have lo: "(1 - roundoff) ^ Suc k * y \<le> binary64 x" .
  have "binary64 x \<le> (1 + roundoff) * x" by (rule binary64_between(2) [OF x(1)])
  also have "\<dots> \<le> (1 + roundoff) * ((1 + roundoff) ^ k * y)"
    using w(2) r(2) by (rule mult_left_mono)
  also have "\<dots> = (1 + roundoff) ^ Suc k * y" by simp
  finally have hi: "binary64 x \<le> (1 + roundoff) ^ Suc k * y" .
  have "t / 2 \<le> x / 2" using x(2) by simp
  also have "\<dots> \<le> binary64 x" by (rule binary64_half [OF x(1)])
  finally have "zero_or_above (t / 2) (binary64 x)" by (simp add: zero_or_above_def)
  with lo hi show ?thesis by (simp only: approximates_def simp_thms)
qed

lemma zero_or_above_add:
  assumes "zero_or_above t x" and "zero_or_above t' y" and "0 \<le> x" and "0 \<le> y"
    and "s \<le> t" and "s \<le> t'"
  shows "zero_or_above s (x + y)"
  using assms by (auto simp: zero_or_above_def)

text \<open>
  The weighted score: five roundings lie between the exact value of
  \<open>(0.3 a + 0.4 b + 0.3 c) / 10\<close> and the double the program computes for counts
  \<open>a\<close>, \<open>b\<close>, \<open>c\<close> that are not negative, so the two round to integers at most 1 apart.
\<close>

lemma weighted_term:
  assumes "0 \<le> n" and "1 / 4 \<le> w"
  shows "approximates 2 (fmul (of_int n) (binary64 w)) (w * of_int n)
     \<and> zero_or_above (1 / 16) (fmul (of_int n) (binary64 w))
     \<and> 0 \<le> fmul (of_int n) (binary64 w)"
proof -
  from assms(2) have w: "0 \<le> w" "1 / 1024 \<le> w" by simp_all
  have "approximates 0 w w" by (simp add: approximates_def)
  moreover have "zero_or_above w w" by (simp add: zero_or_above_def)
  ultimately have wf: "approximates 1 (binary64 w) w"
    using approximates_binary64 [of 0 w w w] w by simp
  have "w / 2 \<le> binary64 w" by (rule binary64_half [OF w(2)])
  with assms(2) have lo: "1 / 8 \<le> binary64 w" by simp
  have n: "(0 :: rat) \<le> of_int n" using assms(1) by simp
  have p: "approximates 1 (of_int n * binary64 w) (of_int n * w)"
    using wf n by (rule approximates_scale)
  have z: "zero_or_above (1 / 8) (of_int n * binary64 w)"
  proof (cases "n = 0")
    case True
    then show ?thesis by (simp add: zero_or_above_def)
  next
    case False
    with assms(1) have "1 \<le> n" by simp
    then have "(1 :: rat) \<le> of_int n" by simp
    moreover have "0 \<le> binary64 w" using lo by simp
    ultimately have "1 * binary64 w \<le> of_int n * binary64 w"
      by (rule mult_right_mono)
    then have "binary64 w \<le> of_int n * binary64 w" by simp
    with lo have "1 / 8 \<le> of_int n * binary64 w" by (rule order_trans)
    then show ?thesis by (simp only: zero_or_above_def simp_thms)
  qed
  have y: "0 \<le> of_int n * w" using n w(1) by simp
  from approximates_binary64 [OF p y z]
  have r: "approximates 2 (binary64 (of_int n * binary64 w)) (of_int n * w)"
    "zero_or_above (1 / 16) (binary64 (of_int n * binary64 w))"
    by (simp_all add: numeral_2_eq_2)
  from approximates_nonneg [OF r(1) y] r show ?thesis
    by (simp add: fmul_def mult.commute)
qed

lemma weighted_score_approximates:
  assumes "0 \<le> a" and "0 \<le> b" and "0 \<le> c"
  shows "approximates 5
     (fdiv (fadd (fadd (fmul (of_int a) (binary64 0.3)) (fmul (of_int b) (binary64 0.4)))
                 (fmul (of_int c) (binary64 0.3))) 10)
     ((0.3 * of_int a + 0.4 * of_int b + 0.3 * of_int c) / 10)"
proof -
  define t1 where "t1 = fmul (of_int a) (binary64 0.3)"
  define t2 where "t2 = fmul (of_int b) (binary64 0.4)"
  define t3 where "t3 = fmul (of_int c) (binary64 0.3)"
  define y1 :: rat where "y1 = 0.3 * of_int a"
  define y2 :: rat where "y2 = 0.4 * of_int b"
  define y3 :: rat where "y3 = 0.3 * of_int c"
  have y: "0 \<le> y1" "0 \<le> y2" "0 \<le> y3"
    using assms by (simp_all add: y1_def y2_def y3_def)
  from weighted_term [OF assms(1), of "0.3"]
  have 1: "approximates 2 t1 y1" "zero_or_above (1 / 16) t1" "0 \<le> t1"
    by (simp_all add: t1_def y1_def)
  from weighted_term [OF assms(2), of "0.4"]
  have 2: "approximates 2 t2 y2" "zero_or_above (1 / 16) t2" "0 \<le> t2"
    by (simp_all add: t2_def y2_def)
  from weighted_term [OF assms(3), of "0.3"]
  have 3: "approximates 2 t3 y3" "zero_or_above (1 / 16) t3" "0 \<le> t3"
    by (simp_all add: t3_def y3_def)
  have s1: "approximates 2 (t1 + t2) (y1 + y2)"
    using 1(1) 2(1) by (rule approximates_add)
  have z1: "zero_or_above (1 / 16) (t1 + t2)"
    using 1(2) 2(2) 1(3) 2(3) by (rule zero_or_above_add) simp_all
  from approximates_binary64 [OF s1 _ z1] y
  have r1: "approximates 3 (fadd t1 t2) (y1 + y2)" "zero_or_above (1 / 32) (fadd t1 t2)"
    by (simp_all add: fadd_def numeral_3_eq_3 numeral_2_eq_2)
  have "0 \<le> y1 + y2" using y by simp
  with r1(1) have n1: "0 \<le> fadd t1 t2" by (rule approximates_nonneg)
  have "approximates 3 t3 y3"
    using 3(1) _ y(3) by (rule approximates_mono) simp
  with r1(1) have s2: "approximates 3 (fadd t1 t2 + t3) (y1 + y2 + y3)"
    by (rule approximates_add)
  have z2: "zero_or_above (1 / 32) (fadd t1 t2 + t3)"
    using r1(2) 3(2) n1 3(3) by (rule zero_or_above_add) simp_all
  from approximates_binary64 [OF s2 _ z2] y
  have r2: "approximates 4 (fadd (fadd t1 t2) t3) (y1 + y2 + y3)"
    "zero_or_above (1 / 64) (fadd (fadd t1 t2) t3)"
    by (simp_all add: fadd_def [of "fadd t1 t2" t3] eval_nat_numeral)
  have d: "approximates 4 (1 / 10 * fadd (fadd t1 t2) t3) (1 / 10 * (y1 + y2 + y3))"
    using r2(1) by (rule approximates_scale) simp
  have zd: "zero_or_above (1 / 640) (1 / 10 * fadd (fadd t1 t2) t3)"
    using r2(2) by (auto simp: zero_or_above_def)
  have "0 \<le> 1 / 10 * (y1 + y2 + y3)" using y by simp
  from approximates_binary64 [OF d this zd]
  have "approximates 5 (fdiv (fadd (fadd t1 t2) t3) 10) ((y1 + y2 + y3) / 10)"
    by (simp add: fdiv_def eval_nat_numeral)
  then show ?thesis
    by (simp only: t1_def t2_def t3_def y1_def y2_def y3_def)
qed

lemma five_roundings:
  "1 - 1 / 2 ^ 50 \<le> (1 - roundoff) ^ 5" "(1 + roundoff) ^ 5 \<le> 1 + 1 / 2 ^ 50"
  by code_simp+

lemma Math_round_close:
  assumes "\<bar>x - y\<bar> < 1"
  shows "\<bar>Math_round x - Math_round y\<bar> \<le> 1"
  using assms unfolding Math_round_def by linarith

lemma score_close:
  assumes "approximates 5 x y" and "0 \<le> y"
  shows "\<bar>Math_round (min 100 x) - Math_round (min 100 y)\<bar> \<le> 1"
proof -
  from assms(1) have "(1 - roundoff) ^ 5 * y \<le> x" "x \<le> (1 + roundoff) ^ 5 * y"
    by (simp_all add: approximates_def)
  moreover have "(1 - 1 / 2 ^ 50) * y \<le> (1 - roundoff) ^ 5 * y"
    using five_roundings(1) assms(2) by (rule mult_right_mono)
  moreover have "(1 + roundoff) ^ 5 * y \<le> (1 + 1 / 2 ^ 50) * y"
    using five_roundings(2) assms(2) by (rule mult_right_mono)
  ultimately have b: "(1 - 1 / 2 ^ 50) * y \<le> x" "x \<le> (1 + 1 / 2 ^ 50) * y"
    by simp_all
  show ?thesis
  proof (cases "y \<le> 200")
    case True
    with b assms(2) have "\<bar>x - y\<bar> < 1"
      by (simp add: abs_less_iff algebra_simps)
    then have "\<bar>min 100 x - min 100 y\<bar> < 1" by (simp add: min_def abs_less_iff)
    then show ?thesis by (rule Math_round_close)
  next
    case False
    with b have "100 \<le> x" by (simp add: algebra_simps)
    with False show ?thesis by (simp add: min_def)
  qed
qed

section \<open>The statistics: theorems\<close>

lemma Math_round_0: "Math_round 0 = 0"
  unfolding Math_round_def by linarith

lemma metric_of_post:
  assumes "is_post t" and "k \<in> {''like_count'', ''retweet_count'', ''reply_count''}"
  shows "metric t k = Returns (Num (stat k t))"
proof -
  from assms(1) obtain kvs where t: "t = Obj kvs"
    by (cases t) (simp_all add: is_post_def)
  have "count_like (opt_prop (opt_prop t ''public_metrics'') k)"
    using assms by (auto simp: is_post_def t)
  then have "or_else (opt_prop (opt_prop t ''public_metrics'') k) (Num 0) = Num (stat k t)"
    by (cases "opt_prop (opt_prop t ''public_metrics'') k")
       (auto simp: count_like_def or_else_def stat_def count_value_def)
  then show ?thesis
    by (simp add: metric_def t)
qed

lemma add_metrics_of_post:
  assumes "is_post t"
  shows "add_metrics acc t =
     Returns \<lparr>likes = likes acc + stat ''like_count'' t,
              retweets = retweets acc + stat ''retweet_count'' t,
              replies = replies acc + stat ''reply_count'' t\<rparr>"
  by (simp add: add_metrics_def metric_of_post [OF assms])

lemma reduce_add_metrics:
  assumes "list_all is_post ts"
  shows "reduce add_metrics ts acc =
     Returns \<lparr>likes = likes acc + sum_list (map (stat ''like_count'') ts),
              retweets = retweets acc + sum_list (map (stat ''retweet_count'') ts),
              replies = replies acc + sum_list (map (stat ''reply_count'') ts)\<rparr>"
  using assms
proof (induction ts arbitrary: acc)
  case Nil
  then show ?case by simp
next
  case (Cons t ts)
  then show ?case by (simp add: add_metrics_of_post add.assoc)
qed

lemma average_of_posts:
  assumes "list_all is_post tweets"
  shows "calculateAverageEngagement tweets =
     Returns \<lparr>likes = Math_round (mean (map (stat ''like_count'') tweets)),
              retweets = Math_round (mean (map (stat ''retweet_count'') tweets)),
              replies = Math_round (mean (map (stat ''reply_count'') tweets))\<rparr>"
proof (cases "tweets = []")
  case True
  then show ?thesis
    by (simp add: calculateAverageEngagement_def mean_def Math_round_0)
next
  case False
  then show ?thesis
    by (simp add: calculateAverageEngagement_def mean_def reduce_add_metrics [OF assms])
qed

lemma Math_round_nearest: "\<bar>of_int (Math_round x) - x\<bar> \<le> 1 / 2"
  unfolding Math_round_def by linarith

lemma Math_round_eqI:
  "of_int k - 1 / 2 \<le> x \<Longrightarrow> x < of_int k + 1 / 2 \<Longrightarrow> Math_round x = k"
  unfolding Math_round_def by linarith

lemma Math_round_mono: "x \<le> y \<Longrightarrow> Math_round x \<le> Math_round y"
  unfolding Math_round_def by (simp add: floor_mono)

lemma Math_round_of_int: "Math_round (of_int i) = i"
  unfolding Math_round_def by linarith

lemma Math_round_min_100: "Math_round (min 100 x) = min 100 (Math_round x)"
proof (cases "x \<le> 100")
  case True
  then have "Math_round x \<le> Math_round (of_int 100)" by (intro Math_round_mono) simp
  then have "Math_round x \<le> 100" by (simp only: Math_round_of_int)
  with True show ?thesis by (simp add: min_def)
next
  case False
  then have "Math_round (of_int 100) \<le> Math_round x" by (intro Math_round_mono) simp
  then have "100 \<le> Math_round x" by (simp only: Math_round_of_int)
  moreover have "Math_round 100 = 100" using Math_round_of_int [of 100] by simp
  ultimately show ?thesis using False by (simp add: min_def)
qed

lemma mean_nonneg: "list_all (\<lambda>x. 0 \<le> x) xs \<Longrightarrow> 0 \<le> mean xs"
  by (auto simp: mean_def list_all_iff intro!: divide_nonneg_nonneg sum_list_nonneg)

lemma Math_round_nonneg: "0 \<le> x \<Longrightarrow> 0 \<le> Math_round x"
  using Math_round_mono [of 0 x] Math_round_of_int [of 0] by simp

text \<open>
  C9. For every list of posts \<open>calculateAverageEngagement\<close> returns, for each of likes,
  retweets and replies, the mean of the posts' counts rounded by \<open>Math.round\<close>, which
  is an integer within one half of the mean; for the empty list it returns
  \<open>{likes: 0, retweets: 0, replies: 0}\<close>.
\<close>

theorem calculateAverageEngagement_rounded_means:
  assumes "list_all is_post tweets"
  shows "calculateAverageEngagement tweets =
           Returns \<lparr>likes = Math_round (mean (map (stat ''like_count'') tweets)),
                    retweets = Math_round (mean (map (stat ''retweet_count'') tweets)),
                    replies = Math_round (mean (map (stat ''reply_count'') tweets))\<rparr>
     \<and> \<bar>of_int (Math_round (mean (map (stat ''like_count'') tweets)))
          - mean (map (stat ''like_count'') tweets)\<bar> \<le> 1 / 2
     \<and> \<bar>of_int (Math_round (mean (map (stat ''retweet_count'') tweets)))
          - mean (map (stat ''retweet_count'') tweets)\<bar> \<le> 1 / 2
     \<and> \<bar>of_int (Math_round (mean (map (stat ''reply_count'') tweets)))
          - mean (map (stat ''reply_count'') tweets)\<bar> \<le> 1 / 2
     \<and> calculateAverageEngagement [] = Returns \<lparr>likes = 0, retweets = 0, replies = 0\<rparr>"
  using average_of_posts [OF assms] Math_round_nearest
  by (simp add: calculateAverageEngagement_def)

lemma post_is_post: "is_post (post txt l r p)"
  by (simp add: is_post_def post_def count_like_def)

lemma stat_post:
  "stat ''like_count'' (post txt l r p) = l"
  "stat ''retweet_count'' (post txt l r p) = r"
  "stat ''reply_count'' (post txt l r p) = p"
  by (simp_all add: stat_def post_def count_value_def)

theorem calculateAverageEngagement_rounded_means_witness:
  "list_all is_post [post ''a'' 1 2 0, post ''b'' 2 3 5]
   \<and> calculateAverageEngagement [post ''a'' 1 2 0, post ''b'' 2 3 5]
       = Returns \<lparr>likes = 2, retweets = 3, replies = 3\<rparr>
   \<and> mean (map (stat ''like_count'') [post ''a'' 1 2 0, post ''b'' 2 3 5]) = 3 / 2
   \<and> mean (map (stat ''retweet_count'') [post ''a'' 1 2 0, post ''b'' 2 3 5]) = 5 / 2
   \<and> mean (map (stat ''reply_count'') [post ''a'' 1 2 0, post ''b'' 2 3 5]) = 5 / 2"
proof -
  have r: "Math_round (3 / 2) = 2" "Math_round (5 / 2) = 3"
    by (simp_all add: Math_round_def)
  from calculateAverageEngagement_rounded_means [of "[post ''a'' 1 2 0, post ''b'' 2 3 5]"]
  show ?thesis
    by (simp add: post_is_post stat_post mean_def r)
qed

lemma round_half_even_nonneg: "0 \<le> y \<Longrightarrow> 0 \<le> round_half_even y"
  by (simp add: round_half_even_def Let_def)

lemma binary64_nonneg: "0 \<le> x \<Longrightarrow> 0 \<le> binary64 x"
  by (simp add: binary64_def Let_def round_half_even_nonneg pow2_pos less_imp_le)

lemma weighted_score_nonneg:
  assumes "0 \<le> a" "0 \<le> b" "0 \<le> c"
  shows "0 \<le> fdiv (fadd (fadd (fmul a (binary64 0.3)) (fmul b (binary64 0.4)))
                        (fmul c (binary64 0.3))) 10"
  using assms
  by (simp add: fdiv_def fadd_def fmul_def binary64_nonneg)

lemma average_of_one_post:
  "calculateAverageEngagement [post txt (of_int l) (of_int r) (of_int p)]
   = Returns \<lparr>likes = l, retweets = r, replies = p\<rparr>"
  using average_of_posts [of "[post txt (of_int l) (of_int r) (of_int p)]"]
  by (simp add: post_is_post stat_post mean_def Math_round_of_int)

lemma collaboration_of_average:
  assumes "calculateAverageEngagement tweets = Returns \<lparr>likes = l, retweets = r, replies = p\<rparr>"
    and "Math_round (fdiv (fadd (fadd (fmul (of_int l) (binary64 0.3))
                                      (fmul (of_int r) (binary64 0.4)))
                                (fmul (of_int p) (binary64 0.3))) 10) = s"
  shows "assessCollaborationPotential tweets
       = Returns \<lparr>score = min 100 s, level = collaboration_level (min 100 s),
                  reasoning = collaboration_reasoning (min 100 s)\<rparr>"
  using assms by (simp add: assessCollaborationPotential_def Let_def)

lemma weighted_score_2_0_48:
  "Math_round (fdiv (fadd (fadd (fmul (of_int 2) (binary64 0.3)) (fmul (of_int 0) (binary64 0.4)))
                          (fmul (of_int 48) (binary64 0.3))) 10) = 1"
  by code_simp

lemma weighted_score_126_1521_196:
  "Math_round (fdiv (fadd (fadd (fmul (of_int 126) (binary64 0.3)) (fmul (of_int 1521) (binary64 0.4)))
                          (fmul (of_int 196) (binary64 0.3))) 10) = 70"
  by code_simp

text \<open>
  C5, as the claim states it, fails on a post with 2 likes, no retweet and 48 replies:
  the claim's formula gives \<open>round(1.5) = 2\<close>, and the program returns 1, because
  \<open>2 * 0.3 + 0 * 0.4 + 48 * 0.3\<close> is \<open>14.999999999999998\<close> in double precision. On a
  post with 126 likes, 1521 retweets and 196 replies the formula gives
  \<open>round(70.5) = 71\<close>, which is \<open>high\<close>, and the program returns 70 and \<open>medium\<close>.
\<close>

theorem collaboration_score_differs_from_exact_formula:
  "calculateAverageEngagement [post ''a'' 2 0 48]
     = Returns \<lparr>likes = 2, retweets = 0, replies = 48\<rparr>
   \<and> assessCollaborationPotential [post ''a'' 2 0 48]
       = Returns \<lparr>score = 1, level = ''low'',
                  reasoning = ''Lower engagement - monitor before outreach''\<rparr>
   \<and> Math_round (min 100 ((0.3 * 2 + 0.4 * 0 + 0.3 * 48) / 10)) = 2
   \<and> calculateAverageEngagement [post ''b'' 126 1521 196]
       = Returns \<lparr>likes = 126, retweets = 1521, replies = 196\<rparr>
   \<and> assessCollaborationPotential [post ''b'' 126 1521 196]
       = Returns \<lparr>score = 70, level = ''medium'',
                  reasoning = ''Moderate engagement - consider for partnerships''\<rparr>
   \<and> Math_round (min 100 ((0.3 * 126 + 0.4 * 1521 + 0.3 * 196) / 10)) = 71"
proof -
  have a1: "calculateAverageEngagement [post ''a'' 2 0 48]
      = Returns \<lparr>likes = 2, retweets = 0, replies = 48\<rparr>"
    using average_of_one_post [of "''a''" 2 0 48] by simp
  have a2: "calculateAverageEngagement [post ''b'' 126 1521 196]
      = Returns \<lparr>likes = 126, retweets = 1521, replies = 196\<rparr>"
    using average_of_one_post [of "''b''" 126 1521 196] by simp
  have c1: "assessCollaborationPotential [post ''a'' 2 0 48]
      = Returns \<lparr>score = 1, level = ''low'',
                 reasoning = ''Lower engagement - monitor before outreach''\<rparr>"
    using collaboration_of_average [OF a1 weighted_score_2_0_48]
    by (simp add: collaboration_level_def collaboration_reasoning_def)
  have c2: "assessCollaborationPotential [post ''b'' 126 1521 196]
      = Returns \<lparr>score = 70, level = ''medium'',
                 reasoning = ''Moderate engagement - consider for partnerships''\<rparr>"
    using collaboration_of_average [OF a2 weighted_score_126_1521_196]
    by (simp add: collaboration_level_def collaboration_reasoning_def)
  have e1: "Math_round (min 100 ((0.3 * 2 + 0.4 * 0 + 0.3 * 48) / 10)) = 2"
    by (rule Math_round_eqI) simp_all
  have e2: "Math_round (min 100 ((0.3 * 126 + 0.4 * 1521 + 0.3 * 196) / 10)) = 71"
    by (rule Math_round_eqI) simp_all
  show ?thesis by (intro conjI a1 c1 e1 a2 c2 e2)
qed

text \<open>
  C5, as the source has it. For every list of posts the score is
  \<open>round(min(100, s))\<close>, where \<open>s\<close> is
  \<open>(avgLikes * 0.3 + avgRetweets * 0.4 + avgReplies * 0.3) / 10\<close> computed in double
  precision from the averages of the engagement summary, each product, each sum and
  the quotient rounded to the nearest double; it never exceeds 100; when the posts'
  counts are not negative it is at least 0 and at most 1 away from the score the
  formula gives in exact arithmetic; the level is \<open>high\<close> above 70, \<open>medium\<close> above 40
  and up to 70, and \<open>low\<close> otherwise.
\<close>

theorem assessCollaborationPotential_score:
  assumes "list_all is_post tweets"
  shows "\<exists>avg c. calculateAverageEngagement tweets = Returns avg
     \<and> assessCollaborationPotential tweets = Returns c
     \<and> score c = Math_round (min 100
           (fdiv (fadd (fadd (fmul (of_int (likes avg)) (binary64 0.3))
                             (fmul (of_int (retweets avg)) (binary64 0.4)))
                       (fmul (of_int (replies avg)) (binary64 0.3)))
                 10))
     \<and> score c \<le> 100
     \<and> (list_all nonneg_counts tweets \<longrightarrow>
          0 \<le> score c
          \<and> \<bar>score c - Math_round (min 100
                 ((0.3 * of_int (likes avg) + 0.4 * of_int (retweets avg)
                   + 0.3 * of_int (replies avg)) / 10))\<bar> \<le> 1)
     \<and> level c = (if score c > 70 then ''high''
                   else if 40 < score c \<and> score c \<le> 70 then ''medium'' else ''low'')"
proof -
  define avg where "avg = \<lparr>likes = Math_round (mean (map (stat ''like_count'') tweets)),
      retweets = Math_round (mean (map (stat ''retweet_count'') tweets)),
      replies = Math_round (mean (map (stat ''reply_count'') tweets))\<rparr>"
  define w where "w = fdiv (fadd (fadd (fmul (of_int (likes avg)) (binary64 0.3))
                                       (fmul (of_int (retweets avg)) (binary64 0.4)))
                                 (fmul (of_int (replies avg)) (binary64 0.3))) 10"
  define s where "s = min 100 (Math_round w)"
  define c where "c = \<lparr>score = s, level = collaboration_level s,
      reasoning = collaboration_reasoning s\<rparr>"
  have sel: "score c = s" "level c = collaboration_level s"
    by (simp_all add: c_def)
  have 1: "calculateAverageEngagement tweets = Returns avg"
    unfolding avg_def by (rule average_of_posts [OF assms])
  have 2: "assessCollaborationPotential tweets = Returns c"
    by (simp add: assessCollaborationPotential_def 1 Let_def c_def s_def w_def)
  have sw: "s = Math_round (min 100 w)"
    by (simp add: s_def Math_round_min_100)
  then have 3: "score c = Math_round (min 100
      (fdiv (fadd (fadd (fmul (of_int (likes avg)) (binary64 0.3))
                        (fmul (of_int (retweets avg)) (binary64 0.4)))
                  (fmul (of_int (replies avg)) (binary64 0.3)))
            10))"
    by (simp only: sel w_def)
  have 4: "score c \<le> 100"
    by (simp add: sel s_def)
  have 5: "0 \<le> score c
      \<and> \<bar>score c - Math_round (min 100
             ((0.3 * of_int (likes avg) + 0.4 * of_int (retweets avg)
               + 0.3 * of_int (replies avg)) / 10))\<bar> \<le> 1"
    if nn: "list_all nonneg_counts tweets"
  proof -
    have "list_all (\<lambda>x. 0 \<le> x) (map (stat k) tweets)"
      if "k \<in> {''like_count'', ''retweet_count'', ''reply_count''}" for k
      using nn that by (auto simp: list_all_iff nonneg_counts_def)
    then have nonneg: "0 \<le> likes avg" "0 \<le> retweets avg" "0 \<le> replies avg"
      by (simp_all add: avg_def mean_nonneg Math_round_nonneg)
    then have "0 \<le> w"
      unfolding w_def by (intro weighted_score_nonneg) simp_all
    then have lower: "0 \<le> score c" by (simp add: sel s_def Math_round_nonneg)
    define x :: rat where "x = (0.3 * of_int (likes avg) + 0.4 * of_int (retweets avg)
      + 0.3 * of_int (replies avg)) / 10"
    have "approximates 5 w x"
      unfolding w_def x_def by (rule weighted_score_approximates [OF nonneg])
    moreover have "0 \<le> x" using nonneg by (simp add: x_def)
    ultimately have "\<bar>Math_round (min 100 w) - Math_round (min 100 x)\<bar> \<le> 1"
      by (rule score_close)
    then have "\<bar>score c - Math_round (min 100 x)\<bar> \<le> 1"
      by (simp only: sel sw)
    with lower show ?thesis by (simp only: x_def simp_thms)
  qed
  have 6: "level c = (if score c > 70 then ''high''
      else if 40 < score c \<and> score c \<le> 70 then ''medium'' else ''low'')"
    by (simp add: sel collaboration_level_def)
  from 1 2 3 4 5 6 show ?thesis by blast
qed

lemma weighted_score_500_200_60:
  "Math_round (min 100
     (fdiv (fadd (fadd (fmul (of_int 500) (binary64 0.3)) (fmul (of_int 200) (binary64 0.4)))
                 (fmul (of_int 60) (binary64 0.3))) 10)) = 25"
  by code_simp

theorem assessCollaborationPotential_score_witness:
  "list_all is_post [post ''a'' 900 300 100, post ''b'' 100 100 20]
   \<and> list_all nonneg_counts [post ''a'' 900 300 100, post ''b'' 100 100 20]
   \<and> calculateAverageEngagement [post ''a'' 900 300 100, post ''b'' 100 100 20]
       = Returns \<lparr>likes = 500, retweets = 200, replies = 60\<rparr>
   \<and> (\<exists>c. assessCollaborationPotential [post ''a'' 900 300 100, post ''b'' 100 100 20]
            = Returns c
          \<and> score c = 25 \<and> 0 \<le> score c \<and> score c \<le> 100 \<and> level c = ''low'')"
proof -
  let ?ts = "[post ''a'' 900 300 100, post ''b'' 100 100 20]"
  have p: "list_all is_post ?ts" by (simp add: post_is_post)
  have n: "list_all nonneg_counts ?ts" by (simp add: nonneg_counts_def stat_post)
  have a: "calculateAverageEngagement ?ts = Returns \<lparr>likes = 500, retweets = 200, replies = 60\<rparr>"
    using average_of_posts [OF p] Math_round_of_int [of 500] Math_round_of_int [of 200]
      Math_round_of_int [of 60]
    by (simp add: stat_post mean_def)
  from assessCollaborationPotential_score [OF p] obtain avg c where
    *: "calculateAverageEngagement ?ts = Returns avg"
       "assessCollaborationPotential ?ts = Returns c"
       "score c = Math_round (min 100
           (fdiv (fadd (fadd (fmul (of_int (likes avg)) (binary64 0.3))
                             (fmul (of_int (retweets avg)) (binary64 0.4)))
                       (fmul (of_int (replies avg)) (binary64 0.3)))
                 10))"
       "score c \<le> 100"
       "list_all nonneg_counts ?ts \<longrightarrow>
          0 \<le> score c
          \<and> \<bar>score c - Math_round (min 100
                 ((0.3 * of_int (likes avg) + 0.4 * of_int (retweets avg)
                   + 0.3 * of_int (replies avg)) / 10))\<bar> \<le> 1"
       "level c = (if score c > 70 then ''high''
                   else if 40 < score c \<and> score c \<le> 70 then ''medium'' else ''low'')"
    by blast
  from *(1) a have avg: "avg = \<lparr>likes = 500, retweets = 200, replies = 60\<rparr>" by simp
  from *(3) have s: "score c = 25"
    unfolding avg using weighted_score_500_200_60 by simp
  from *(2,4,5,6) s n have e: "\<exists>c. assessCollaborationPotential ?ts = Returns c
      \<and> score c = 25 \<and> 0 \<le> score c \<and> score c \<le> 100 \<and> level c = ''low''"
    by (intro exI [of _ c]) simp
  show ?thesis by (intro conjI p n a e)
qed







lemma example_fetch_phase:
  "bind (analyzeCompetitors (prints_post 100 50 10) example_intel 0)
     (\<lambda>s. identifyTrends (prints_post 100 50 10) (fst s) (snd s))
   = Returns (example_fetched, 2)"
  by code_simp



section \<open>Recommendations and the saved report: theorems\<close>

lemma bind_Returns:
  assumes "bind m f = Returns y"
  obtains x where "m = Returns x" and "f x = Returns y"
  using assms by (cases m) simp_all

lemma saveReport_summary:
  assumes "saveReport sys this = Returns this'"
  shows "summary (this_report this') =
     Some \<lparr>competitorsTracked = length (competitors (this_report this')),
           influencersTracked = length (influencers (this_report this')),
           trendsIdentified = length (trends (this_report this')),
           insightsGenerated = length (insights (this_report this')),
           recommendationsProvided = length (recommendations (this_report this'))\<rparr>"
proof -
  from assms obtain filepath where
    "this' = this\<lparr>this_report := (this_report this)
       \<lparr>summary := Some \<lparr>competitorsTracked = length (competitors (this_report this)),
                         influencersTracked = length (influencers (this_report this)),
                         trendsIdentified = length (trends (this_report this)),
                         insightsGenerated = length (insights (this_report this)),
                         recommendationsProvided = length (recommendations (this_report this))\<rparr>\<rparr>\<rparr>"
    unfolding saveReport_def Let_def by (elim bind_Returns) simp
  then show ?thesis by simp
qed

text \<open>
  C10. The report of a completed run carries a summary, and each field of the summary
  is the length of the report section it counts.
\<close>

theorem run_summary_counts_sections:
  assumes "run env sys this options n = Returns (this', n')"
  shows "summary (this_report this') =
     Some \<lparr>competitorsTracked = length (competitors (this_report this')),
           influencersTracked = length (influencers (this_report this')),
           trendsIdentified = length (trends (this_report this')),
           insightsGenerated = length (insights (this_report this')),
           recommendationsProvided = length (recommendations (this_report this'))\<rparr>"
proof -
  from assms obtain g where "saveReport sys g = Returns this'"
    unfolding run_def by (elim bind_Returns) simp
  then show ?thesis by (rule saveReport_summary)
qed

lemma example_run_lengths:
  "(case run (prints_post 100 50 10) example_sys example_intel both_categories 0 of
      Returns (i, k) \<Rightarrow>
        length (competitors (this_report i)) = 1 \<and> length (influencers (this_report i)) = 0
        \<and> length (trends (this_report i)) = 1 \<and> length (insights (this_report i)) = 1
        \<and> length (recommendations (this_report i)) = 5 \<and> k = 2
    | _ \<Rightarrow> False)"
  by code_simp

theorem run_summary_counts_sections_witness:
  "\<exists>this'. run (prints_post 100 50 10) example_sys example_intel both_categories 0
        = Returns (this', 2)
     \<and> summary (this_report this') =
         Some \<lparr>competitorsTracked = 1, influencersTracked = 0, trendsIdentified = 1,
               insightsGenerated = 1, recommendationsProvided = 5\<rparr>"
proof (cases "run (prints_post 100 50 10) example_sys example_intel both_categories 0")
  case (Returns p)
  obtain i k where p: "p = (i, k)" by (cases p)
  from example_run_lengths Returns p have l:
    "length (competitors (this_report i)) = 1" "length (influencers (this_report i)) = 0"
    "length (trends (this_report i)) = 1" "length (insights (this_report i)) = 1"
    "length (recommendations (this_report i)) = 5" "k = 2"
    by simp_all
  from run_summary_counts_sections [of "prints_post 100 50 10" example_sys example_intel
      both_categories 0 i k] Returns p
  have "summary (this_report i) =
     Some \<lparr>competitorsTracked = 1, influencersTracked = 0, trendsIdentified = 1,
           insightsGenerated = 1, recommendationsProvided = 5\<rparr>"
    by (simp add: l)
  with Returns p l(6) show ?thesis by simp
next
  case (Throws e)
  with example_run_lengths show ?thesis by simp
next
  case Unmodelled
  with example_run_lengths show ?thesis by simp
qed

text \<open>
  C4 on the source: the worked example with 1 like and 10 replies on the competitor's
  post. The mean reply count over the competitors' top posts, 10, exceeds the mean like
  count, 1, and the run's recommendations hold no \<open>engagement-strategy\<close> entry; the
  last one is the fixed posting strategy.
\<close>

theorem engagement_strategy_not_emitted:
  "(case run (prints_post 1 0 10) example_sys example_intel both_categories 0 of
      Returns (i, k) \<Rightarrow>
        top_mean ''replies'' (this_report i) = 10
        \<and> top_mean ''likes'' (this_report i) = 1
        \<and> filter (has_type ''engagement-strategy'') (recommendations (this_report i)) = []
        \<and> last (recommendations (this_report i)) = posting_strategy
    | _ \<Rightarrow> False)"
  by code_simp

section \<open>Content gaps and themes: theorems\<close>

lemma lower_text_of_post:
  assumes "has_text t"
  shows "lower_text env t = Returns (toLowerCase env (post_text t))"
proof -
  from assms obtain kvs where t: "t = Obj kvs"
    by (cases t) (simp_all add: has_text_def)
  from assms obtain s where s: "or_else (opt_prop t ''text'') (opt_prop t ''full_text'') = Str s"
    by (cases "or_else (opt_prop t ''text'') (opt_prop t ''full_text'')")
       (simp_all add: has_text_def t)
  have "text_of t = Returns (or_else (opt_prop t ''text'') (opt_prop t ''full_text''))"
    by (simp add: text_of_def t or_else_def)
  then show ?thesis
    by (simp add: lower_text_def s post_text_def)
qed









lemma map_of_set_own: "map_of (set_own k v obj) = (map_of obj)(k \<mapsto> v)"
  by (induction obj) (auto simp: fun_eq_iff)

lemma keys_set_own: "set (map fst (set_own k v obj)) = insert k (set (map fst obj))"
  by (induction obj) auto

lemma distinct_set_own: "distinct (map fst obj) \<Longrightarrow> distinct (map fst (set_own k v obj))"
  by (induction obj) (auto simp: keys_set_own [simplified])

text \<open>A counting object holds exactly the non-zero values of \<open>f\<close>, each key once.\<close>

lemma bump_counts:
  assumes "distinct (map fst obj)"
    and "\<And>j. map_of obj j = (if f j = 0 then None else Some (f j))"
    and "k \<notin> set Object_prototype_keys" and "0 < d"
  shows "\<exists>obj'. bump obj k d = Returns obj' \<and> distinct (map fst obj')
     \<and> (\<forall>j. map_of obj' j = (if (f(k := f k + d)) j = 0 then None else Some ((f(k := f k + d)) j)))"
proof (cases "f k = 0")
  case True
  with assms(2) [of k] have "map_of obj k = None" by simp
  with assms True show ?thesis
    by (simp add: bump_def map_of_set_own distinct_set_own)
next
  case False
  with assms(2) [of k] have "map_of obj k = Some (f k)" by simp
  with assms False show ?thesis
    by (simp add: bump_def map_of_set_own distinct_set_own)
qed

lemma count_keywords:
  assumes "distinct (map fst themes)"
    and "\<And>j. map_of themes j = (if f j = 0 then None else Some (f j))"
    and "list_all (\<lambda>k. k \<notin> set Object_prototype_keys) kws"
  shows "\<exists>themes'. reduce (count_keyword env s) kws themes = Returns themes'
     \<and> distinct (map fst themes')
     \<and> (\<forall>j. map_of themes' j =
            (if f j + (if includes_str s (toLowerCase env j) then count_list kws j else 0) = 0 then None
             else Some (f j + (if includes_str s (toLowerCase env j) then count_list kws j else 0))))"
  using assms
proof (induction kws arbitrary: themes f)
  case Nil
  then show ?case by simp
next
  case (Cons kw kws)
  show ?case
  proof (cases "includes_str s (toLowerCase env kw)")
    case True
    from Cons.prems have "kw \<notin> set Object_prototype_keys" by simp
    from bump_counts [OF Cons.prems(1) Cons.prems(2) this, of 1]
    obtain obj' where b: "bump themes kw 1 = Returns obj'" "distinct (map fst obj')"
      "\<And>j. map_of obj' j = (if (f(kw := f kw + 1)) j = 0 then None
                              else Some ((f(kw := f kw + 1)) j))"
      by auto
    from Cons.prems(3) have rest: "list_all (\<lambda>k. k \<notin> set Object_prototype_keys) kws" by simp
    from Cons.IH [OF b(2) b(3) rest]
    obtain themes' where r: "reduce (count_keyword env s) kws obj' = Returns themes'"
      "distinct (map fst themes')"
      "\<And>j. map_of themes' j =
          (if (f(kw := f kw + 1)) j
                + (if includes_str s (toLowerCase env j) then count_list kws j else 0) = 0 then None
           else Some ((f(kw := f kw + 1)) j
                + (if includes_str s (toLowerCase env j) then count_list kws j else 0)))"
      by auto
    have "reduce (count_keyword env s) (kw # kws) themes = Returns themes'"
      using b(1) r(1) by (simp add: count_keyword_def True)
    moreover have "map_of themes' j =
        (if f j + (if includes_str s (toLowerCase env j) then count_list (kw # kws) j else 0) = 0
         then None
         else Some (f j + (if includes_str s (toLowerCase env j) then count_list (kw # kws) j else 0)))"
      for j
      using r(3) [of j] True by (cases "j = kw") simp_all
    ultimately show ?thesis using r(2) by blast
  next
    case False
    from Cons.prems(3) have rest: "list_all (\<lambda>k. k \<notin> set Object_prototype_keys) kws" by simp
    from Cons.IH [OF Cons.prems(1) Cons.prems(2) rest]
    obtain themes' where r: "reduce (count_keyword env s) kws themes = Returns themes'"
      "distinct (map fst themes')"
      "\<And>j. map_of themes' j =
          (if f j + (if includes_str s (toLowerCase env j) then count_list kws j else 0) = 0 then None
           else Some (f j + (if includes_str s (toLowerCase env j) then count_list kws j else 0)))"
      by auto
    have "reduce (count_keyword env s) (kw # kws) themes = Returns themes'"
      by (simp add: count_keyword_def False r(1))
    moreover have "map_of themes' j =
        (if f j + (if includes_str s (toLowerCase env j) then count_list (kw # kws) j else 0) = 0
         then None
         else Some (f j + (if includes_str s (toLowerCase env j) then count_list (kw # kws) j else 0)))"
      for j
      using r(3) [of j] False by (cases "j = kw") simp_all
    ultimately show ?thesis using r(2) by blast
  qed
qed

lemma count_tweets:
  assumes "distinct (map fst themes)"
    and "\<And>j. map_of themes j = (if f j = 0 then None else Some (f j))"
    and "list_all (\<lambda>k. k \<notin> set Object_prototype_keys) kws"
    and "list_all has_text tweets"
  shows "\<exists>themes'. reduce (count_tweet env kws) tweets themes = Returns themes'
     \<and> distinct (map fst themes')
     \<and> (\<forall>j. map_of themes' j =
            (if f j + length (filter (\<lambda>t. mentions env t j) tweets) * count_list kws j = 0 then None
             else Some (f j + length (filter (\<lambda>t. mentions env t j) tweets) * count_list kws j)))"
  using assms
proof (induction tweets arbitrary: themes f)
  case Nil
  then show ?case by simp
next
  case (Cons t tweets)
  let ?s = "toLowerCase env (post_text t)"
  let ?g = "\<lambda>j. f j + (if includes_str ?s (toLowerCase env j) then count_list kws j else 0)"
  from Cons.prems(4) have lt: "lower_text env t = Returns ?s" and rest: "list_all has_text tweets"
    by (simp_all add: lower_text_of_post)
  from count_keywords [OF Cons.prems(1) Cons.prems(2) Cons.prems(3), of env ?s]
  obtain obj' where k: "reduce (count_keyword env ?s) kws themes = Returns obj'"
    "distinct (map fst obj')"
    "\<And>j. map_of obj' j = (if ?g j = 0 then None else Some (?g j))"
    by auto
  from Cons.IH [OF k(2) k(3) Cons.prems(3) rest]
  obtain themes' where r: "reduce (count_tweet env kws) tweets obj' = Returns themes'"
    "distinct (map fst themes')"
    "\<And>j. map_of themes' j =
        (if ?g j + length (filter (\<lambda>t. mentions env t j) tweets) * count_list kws j = 0 then None
         else Some (?g j + length (filter (\<lambda>t. mentions env t j) tweets) * count_list kws j))"
    by auto
  have "reduce (count_tweet env kws) (t # tweets) themes = Returns themes'"
    by (simp add: count_tweet_def lt k(1) r(1))
  moreover have "map_of themes' j =
      (if f j + length (filter (\<lambda>t. mentions env t j) (t # tweets)) * count_list kws j = 0 then None
       else Some (f j + length (filter (\<lambda>t. mentions env t j) (t # tweets)) * count_list kws j))"
    for j
    using r(3) [of j] by (simp add: mentions_def)
  ultimately show ?case using r(2) by blast
qed

lemma mset_entries: "mset (entries obj) = mset obj"
  by (simp add: entries_def)

lemma set_entries: "set (entries obj) = set obj"
  using mset_entries [of obj] by (metis set_mset_mset)

lemma distinct_keys_entries:
  assumes "distinct (map fst obj)"
  shows "distinct (map fst (entries obj))"
proof -
  have "mset (map fst (entries obj)) = mset (map fst obj)"
    by (simp add: mset_entries)
  with assms show ?thesis by (metis mset_eq_imp_distinct_iff)
qed

lemma sorted_by_frequency:
  "sorted_wrt (\<lambda>a b. frequency b \<le> frequency a) (sort_key (\<lambda>e. - int (frequency e)) es)"
proof -
  have "sorted (map (\<lambda>e. - int (frequency e)) (sort_key (\<lambda>e. - int (frequency e)) es))"
    by (rule sorted_sort_key)
  then show ?thesis by (simp add: sorted_map)
qed
lemma theme_of_entry: "theme (case p of (t, c) \<Rightarrow> \<lparr>theme = t, frequency = c\<rparr>) = fst p"
  by (cases p) simp

lemma frequency_of_entry:
  "frequency (case p of (t, c) \<Rightarrow> \<lparr>theme = t, frequency = c\<rparr>) = snd p"
  by (cases p) simp

lemma themes_of_posts:
  assumes "list_all has_text tweets"
    and "list_all (\<lambda>k. k \<notin> set Object_prototype_keys) (or_empty (cfg_keywords config))"
  shows "\<exists>themes. extractThemes env config tweets = Returns themes
     \<and> set (map theme themes)
         = {k \<in> set (or_empty (cfg_keywords config)). \<exists>t \<in> set tweets. mentions env t k}
     \<and> distinct (map theme themes)
     \<and> sorted_wrt (\<lambda>a b. frequency b \<le> frequency a) themes
     \<and> (\<forall>e \<in> set themes.
          frequency e = length (filter (\<lambda>t. mentions env t (theme e)) tweets)
                        * count_list (or_empty (cfg_keywords config)) (theme e))"
proof -
  let ?kws = "or_empty (cfg_keywords config)"
  let ?N = "\<lambda>j. length (filter (\<lambda>t. mentions env t j) tweets) * count_list ?kws j"
  let ?conv = "\<lambda>p. case p of (t, c) \<Rightarrow> \<lparr>theme = t, frequency = c\<rparr>"
  have "distinct (map fst ([] :: (string \<times> nat) list))" by simp
  moreover have "map_of ([] :: (string \<times> nat) list) j
      = (if (\<lambda>j. 0 :: nat) j = 0 then None else Some ((\<lambda>j. 0) j))" for j
    by simp
  ultimately obtain obj where obj: "reduce (count_tweet env ?kws) tweets [] = Returns obj"
    "distinct (map fst obj)"
    "\<And>j. map_of obj j = (if 0 + ?N j = 0 then None else Some (0 + ?N j))"
    using count_tweets [of "[]" "\<lambda>j. 0" ?kws tweets] assms by blast
  define themes where "themes = sort_key (\<lambda>e. - int (frequency e)) (map ?conv (entries obj))"
  have ret: "extractThemes env config tweets = Returns themes"
    by (simp add: extractThemes_def obj(1) themes_def)
  have ms: "mset (map theme themes) = mset (map fst obj)"
  proof -
    have "mset themes = mset (map ?conv (entries obj))"
      by (simp add: themes_def)
    then have "mset (map theme themes) = mset (map theme (map ?conv (entries obj)))"
      by (simp only: mset_map)
    also have "map theme (map ?conv (entries obj)) = map fst (entries obj)"
      by (simp add: theme_of_entry)
    also have "mset (map fst (entries obj)) = mset (map fst obj)"
      by (simp add: mset_entries)
    finally show ?thesis .
  qed
  have keys: "set (map fst obj) = {k \<in> set ?kws. \<exists>t \<in> set tweets. mentions env t k}"
  proof -
    have "set (map fst obj) = dom (map_of obj)"
      by (simp add: dom_map_of_conv_image_fst)
    also have "\<dots> = {j. ?N j \<noteq> 0}"
      by (auto simp: dom_def obj(3))
    also have "\<dots> = {k \<in> set ?kws. \<exists>t \<in> set tweets. mentions env t k}"
      by (auto simp: count_list_0_iff filter_empty_conv)
    finally show ?thesis .
  qed
  have names: "set (map theme themes) = {k \<in> set ?kws. \<exists>t \<in> set tweets. mentions env t k}"
    using ms keys by (metis set_mset_mset)
  have dist: "distinct (map theme themes)"
    using ms obj(2) by (metis mset_eq_imp_distinct_iff)
  have srt: "sorted_wrt (\<lambda>a b. frequency b \<le> frequency a) themes"
    unfolding themes_def by (rule sorted_by_frequency)
  have freq: "frequency e = ?N (theme e)" if "e \<in> set themes" for e
  proof -
    from that obtain p where p: "p \<in> set obj" "e = ?conv p"
      by (auto simp: themes_def set_entries)
    then have "map_of obj (fst p) = Some (snd p)"
      using obj(2) by simp
    with obj(3) [of "fst p"] have "snd p = ?N (fst p)"
      by (simp split: if_splits)
    with p(2) show ?thesis by (simp add: theme_of_entry frequency_of_entry)
  qed
  from ret names dist srt freq show ?thesis by blast
qed

lemma keep_two_of_three:
  "P a \<Longrightarrow> P b \<Longrightarrow> \<not> P c \<Longrightarrow> {k \<in> set [a, b, c]. P k} = {a, b}"
  by auto

lemma card_two: "a \<noteq> b \<Longrightarrow> card {a, b} = 2"
  by simp

text \<open>
  C8. With the keyword \<open>__proto__\<close> configured and a post whose text contains it,
  \<open>extractThemes\<close> returns no entry, where the claim has one entry for each keyword
  that occurs in a post: \<open>themes\<close> is a plain object, and \<open>themes['__proto__']\<close> is its
  prototype and not a count.
\<close>

theorem extractThemes_no_entry_for_proto_keyword:
  "has_text proto_post
   \<and> cfg_keywords proto_keyword = Some [''__proto__'']
   \<and> mentions ascii_engine proto_post ''__proto__''
   \<and> extractThemes ascii_engine proto_keyword [proto_post] = Returns []"
  by code_simp

text \<open>
  Where no configured keyword is the name of a property inherited from
  \<open>Object.prototype\<close>, the themes are as claimed: for every such keyword list and every
  list of posts, \<open>extractThemes\<close> returns one entry for each keyword that at least one
  post mentions (the lowercased text of the post contains the lowercased keyword), no
  entry for any other keyword, each entry carrying the number of posts that mention
  its keyword (times the number of times the keyword is configured), in descending
  order of that frequency. With the keywords \<open>AI automation\<close>, \<open>Claude Code\<close> and
  \<open>newsletter growth\<close> of which the posts mention only the first two, there are exactly
  two entries.
\<close>

lemma extractThemes_mentioned_keywords:
  assumes "list_all has_text tweets"
    and "list_all (\<lambda>k. k \<notin> set Object_prototype_keys) (or_empty (cfg_keywords config))"
  shows "\<exists>themes. extractThemes env config tweets = Returns themes
     \<and> set (map theme themes)
         = {k \<in> set (or_empty (cfg_keywords config)). \<exists>t \<in> set tweets. mentions env t k}
     \<and> distinct (map theme themes)
     \<and> sorted_wrt (\<lambda>a b. frequency b \<le> frequency a) themes
     \<and> (\<forall>e \<in> set themes.
          frequency e = length (filter (\<lambda>t. mentions env t (theme e)) tweets)
                        * count_list (or_empty (cfg_keywords config)) (theme e))
     \<and> (or_empty (cfg_keywords config) = [''AI automation'', ''Claude Code'', ''newsletter growth'']
          \<and> (\<exists>t \<in> set tweets. mentions env t ''AI automation'')
          \<and> (\<exists>t \<in> set tweets. mentions env t ''Claude Code'')
          \<and> \<not> (\<exists>t \<in> set tweets. mentions env t ''newsletter growth'')
        \<longrightarrow> length themes = 2)"
proof -
  from themes_of_posts [OF assms] obtain themes where
    t: "extractThemes env config tweets = Returns themes"
       "set (map theme themes)
         = {k \<in> set (or_empty (cfg_keywords config)). \<exists>t \<in> set tweets. mentions env t k}"
       "distinct (map theme themes)"
       "sorted_wrt (\<lambda>a b. frequency b \<le> frequency a) themes"
       "\<forall>e \<in> set themes.
          frequency e = length (filter (\<lambda>t. mentions env t (theme e)) tweets)
                        * count_list (or_empty (cfg_keywords config)) (theme e)"
    by blast
  have two: "length themes = 2"
    if three: "or_empty (cfg_keywords config)
        = [''AI automation'', ''Claude Code'', ''newsletter growth'']"
      and ai: "\<exists>t \<in> set tweets. mentions env t ''AI automation''"
      and cc: "\<exists>t \<in> set tweets. mentions env t ''Claude Code''"
      and ng: "\<not> (\<exists>t \<in> set tweets. mentions env t ''newsletter growth'')"
  proof -
    have "{k \<in> set [''AI automation'', ''Claude Code'', ''newsletter growth''].
            \<exists>t \<in> set tweets. mentions env t k} = {''AI automation'', ''Claude Code''}"
      by (rule keep_two_of_three
            [of "\<lambda>k. \<exists>t \<in> set tweets. mentions env t k" "''AI automation''" "''Claude Code''"
                "''newsletter growth''", OF ai cc ng])
    then have names: "set (map theme themes) = {''AI automation'', ''Claude Code''}"
      by (simp only: t(2) three)
    have ne: "''AI automation'' \<noteq> ''Claude Code''" by simp
    have "length themes = length (map theme themes)" by simp
    also have "\<dots> = card (set (map theme themes))"
      by (rule distinct_card [OF t(3), symmetric])
    also have "\<dots> = 2"
      unfolding names by (rule card_two [OF ne])
    finally show ?thesis .
  qed
  show ?thesis
  proof (intro exI [of _ themes] conjI impI)
    show "extractThemes env config tweets = Returns themes" by (rule t(1))
    show "set (map theme themes)
        = {k \<in> set (or_empty (cfg_keywords config)). \<exists>t \<in> set tweets. mentions env t k}"
      by (rule t(2))
    show "distinct (map theme themes)" by (rule t(3))
    show "sorted_wrt (\<lambda>a b. frequency b \<le> frequency a) themes" by (rule t(4))
    show "\<forall>e \<in> set themes.
        frequency e = length (filter (\<lambda>t. mentions env t (theme e)) tweets)
                      * count_list (or_empty (cfg_keywords config)) (theme e)"
      by (rule t(5))
    assume "or_empty (cfg_keywords config)
          = [''AI automation'', ''Claude Code'', ''newsletter growth'']
        \<and> (\<exists>t \<in> set tweets. mentions env t ''AI automation'')
        \<and> (\<exists>t \<in> set tweets. mentions env t ''Claude Code'')
        \<and> \<not> (\<exists>t \<in> set tweets. mentions env t ''newsletter growth'')"
    then show "length themes = 2" using two by simp
  qed
qed

lemma two_theme_posts_themes:
  "extractThemes ascii_engine three_keywords two_theme_posts
   = Returns [\<lparr>theme = ''Claude Code'', frequency = 2\<rparr>,
              \<lparr>theme = ''AI automation'', frequency = 1\<rparr>]"
  by code_simp

lemma two_theme_posts_mentions:
  "list_all has_text two_theme_posts"
  "list_all (\<lambda>k. k \<notin> set Object_prototype_keys) (or_empty (cfg_keywords three_keywords))"
  "or_empty (cfg_keywords three_keywords)
     = [''AI automation'', ''Claude Code'', ''newsletter growth'']"
  "list_ex (\<lambda>t. mentions ascii_engine t ''AI automation'') two_theme_posts"
  "list_ex (\<lambda>t. mentions ascii_engine t ''Claude Code'') two_theme_posts"
  "\<not> list_ex (\<lambda>t. mentions ascii_engine t ''newsletter growth'') two_theme_posts"
  by code_simp+

lemma extractThemes_mentioned_keywords_example:
  "list_all has_text two_theme_posts
   \<and> list_all (\<lambda>k. k \<notin> set Object_prototype_keys) (or_empty (cfg_keywords three_keywords))
   \<and> list_ex (\<lambda>t. mentions ascii_engine t ''AI automation'') two_theme_posts
   \<and> list_ex (\<lambda>t. mentions ascii_engine t ''Claude Code'') two_theme_posts
   \<and> \<not> list_ex (\<lambda>t. mentions ascii_engine t ''newsletter growth'') two_theme_posts
   \<and> extractThemes ascii_engine three_keywords two_theme_posts
       = Returns [\<lparr>theme = ''Claude Code'', frequency = 2\<rparr>,
                  \<lparr>theme = ''AI automation'', frequency = 1\<rparr>]
   \<and> (\<exists>themes. extractThemes ascii_engine three_keywords two_theme_posts = Returns themes
          \<and> length themes = 2
          \<and> sorted_wrt (\<lambda>a b. frequency b \<le> frequency a) themes)"
proof -
  from extractThemes_mentioned_keywords [OF two_theme_posts_mentions(1,2), of ascii_engine]
  obtain themes where
    t: "extractThemes ascii_engine three_keywords two_theme_posts = Returns themes"
       "sorted_wrt (\<lambda>a b. frequency b \<le> frequency a) themes"
       "or_empty (cfg_keywords three_keywords)
            = [''AI automation'', ''Claude Code'', ''newsletter growth'']
          \<and> (\<exists>t \<in> set two_theme_posts. mentions ascii_engine t ''AI automation'')
          \<and> (\<exists>t \<in> set two_theme_posts. mentions ascii_engine t ''Claude Code'')
          \<and> \<not> (\<exists>t \<in> set two_theme_posts. mentions ascii_engine t ''newsletter growth'')
        \<longrightarrow> length themes = 2"
    by blast
  from t(3) two_theme_posts_mentions(3-6) have "length themes = 2"
    by (simp add: list_ex_iff)
  with t(1,2) have e: "\<exists>themes. extractThemes ascii_engine three_keywords two_theme_posts = Returns themes
      \<and> length themes = 2 \<and> sorted_wrt (\<lambda>a b. frequency b \<le> frequency a) themes"
    by (intro exI [of _ themes]) simp
  show ?thesis
    by (intro conjI two_theme_posts_mentions(1,2,4,5,6) two_theme_posts_themes e)
qed

section \<open>Recommendations: what every run produces\<close>

lemma top_tweet_stored:
  assumes "top_tweet t = Returns tt"
  shows "stored_top tt"
proof -
  from assms obtain a e c where
    "tt = Obj [(''text'', a), (''engagement'', e), (''createdAt'', c)]"
    unfolding top_tweet_def by (elim bind_Returns) auto
  then show ?thesis by (simp add: stored_top_def)
qed

lemma map_outcome_all:
  assumes "map_outcome f xs = Returns ys" and "\<And>x y. f x = Returns y \<Longrightarrow> P y"
  shows "list_all P ys"
  using assms(1)
proof (induction xs arbitrary: ys)
  case Nil
  then show ?case by simp
next
  case (Cons x xs)
  from Cons.prems obtain y ys' where "f x = Returns y" "map_outcome f xs = Returns ys'"
    "ys = y # ys'"
    by (cases "f x"; cases "map_outcome f xs") simp_all
  with Cons.IH assms(2) show ?case by simp
qed

lemma stored_top_is_post:
  assumes "stored_top tt"
  shows "is_post tt" and "stat k tt = 0"
proof -
  from assms obtain kvs where "tt = Obj kvs" "map_of kvs ''public_metrics'' = None"
    by (cases tt) (simp_all add: stored_top_def)
  then show "is_post tt" and "stat k tt = 0"
    by (simp_all add: is_post_def count_like_def stat_def count_value_def)
qed

lemma average_of_stored:
  assumes "list_all stored_top tts"
  shows "calculateAverageEngagement tts = Returns \<lparr>likes = 0, retweets = 0, replies = 0\<rparr>"
proof -
  have p: "list_all is_post tts"
    using assms by (auto simp: list_all_iff stored_top_is_post(1))
  have z: "mean (map (stat k) tts) = 0" for k
  proof -
    have "map (stat k) tts = map (\<lambda>t. 0) tts"
      using assms by (auto simp: list_all_iff stored_top_is_post(2))
    then have "sum_list (map (stat k) tts) = 0"
      by (simp only: sum_list_0)
    then show ?thesis by (simp add: mean_def)
  qed
  show ?thesis
    by (simp only: average_of_posts [OF p] z Math_round_0)
qed

lemma reduce_invariant:
  assumes "reduce f xs a = Returns b" and "P a"
    and "\<And>a x a'. P a \<Longrightarrow> f a x = Returns a' \<Longrightarrow> P a'"
  shows "P b"
  using assms(1,2)
proof (induction xs arbitrary: a)
  case Nil
  then show ?case by simp
next
  case (Cons x xs)
  from Cons.prems(1) obtain a' where "f a x = Returns a'" "reduce f xs a' = Returns b"
    by (cases "f a x") simp_all
  with Cons.IH assms(3) Cons.prems(2) show ?case by blast
qed

lemma analyzeCompetitor_fetched:
  assumes "analyzeCompetitor env st competitor = Returns st'" and "fetched (fst st)"
  shows "fetched (fst st')
     \<and> recommendations (this_report (fst st')) = recommendations (this_report (fst st))"
proof -
  obtain tweets k where s: "search env (''from:'' @ competitor) (Some 5) (snd st) = (tweets, k)"
    by (cases "search env (''from:'' @ competitor) (Some 5) (snd st)")
  show ?thesis
  proof (cases "competitor_analysis env (this_config (fst st)) competitor tweets")
    case (Returns a)
    then obtain tops where "map_outcome top_tweet tweets = Returns tops" "topTweets a = tops"
      unfolding competitor_analysis_def by (elim bind_Returns) auto
    then have "list_all stored_top (topTweets a)"
      using map_outcome_all [of top_tweet tweets tops stored_top] top_tweet_stored by simp
    with assms s Returns show ?thesis
      by (auto simp: analyzeCompetitor_def fetched_def split: if_splits)
  next
    case (Throws e)
    with assms s show ?thesis
      by (auto simp: analyzeCompetitor_def split: if_splits)
  next
    case Unmodelled
    with assms s show ?thesis
      by (auto simp: analyzeCompetitor_def split: if_splits)
  qed
qed

lemma analyzeInfluencer_fetched:
  assumes "analyzeInfluencer env st influencer = Returns st'" and "fetched (fst st)"
  shows "fetched (fst st')
     \<and> recommendations (this_report (fst st')) = recommendations (this_report (fst st))"
proof -
  obtain tweets k where s: "search env (''from:'' @ influencer) (Some 5) (snd st) = (tweets, k)"
    by (cases "search env (''from:'' @ influencer) (Some 5) (snd st)")
  have "competitors (this_report (fst st')) = competitors (this_report (fst st))
      \<and> recommendations (this_report (fst st')) = recommendations (this_report (fst st))"
  proof (cases "influencer_analysis env (this_config (fst st)) influencer tweets")
    case (Returns a)
    with assms(1) s show ?thesis
      by (cases "0 < length tweets") (auto simp: analyzeInfluencer_def)
  next
    case (Throws e)
    with assms(1) s show ?thesis
      by (cases "0 < length tweets") (auto simp: analyzeInfluencer_def)
  next
    case Unmodelled
    with assms(1) s show ?thesis
      by (cases "0 < length tweets") (auto simp: analyzeInfluencer_def)
  qed
  with assms(2) show ?thesis by (simp add: fetched_def)
qed

lemma identifyTrend_fetched:
  assumes "identifyTrend env st kw = Returns st'" and "fetched (fst st)"
  shows "fetched (fst st')
     \<and> recommendations (this_report (fst st')) = recommendations (this_report (fst st))"
proof -
  obtain tweets k where s: "search env kw (Some 5) (snd st) = (tweets, k)"
    by (cases "search env kw (Some 5) (snd st)")
  have "competitors (this_report (fst st')) = competitors (this_report (fst st))
      \<and> recommendations (this_report (fst st')) = recommendations (this_report (fst st))"
  proof (cases "trend_entry env kw tweets")
    case (Returns a)
    with assms(1) s show ?thesis
      by (cases "0 < length tweets") (auto simp: identifyTrend_def)
  next
    case (Throws e)
    with assms(1) s show ?thesis
      by (cases "0 < length tweets") (auto simp: identifyTrend_def)
  next
    case Unmodelled
    with assms(1) s show ?thesis
      by (cases "0 < length tweets") (auto simp: identifyTrend_def)
  qed
  with assms(2) show ?thesis by (simp add: fetched_def)
qed

lemma generateInsights_frame:
  assumes "generateInsights this = Returns this'"
  shows "competitors (this_report this') = competitors (this_report this)"
    and "recommendations (this_report this') = recommendations (this_report this)"
proof -
  let ?r = "this_report this"
  let ?one = "if length (competitors ?r) > 0
      then bind (competitor_positioning ?r) (\<lambda>i. Returns [i]) else Returns []"
  let ?two = "if length (influencers ?r) > 0
      then bind (filter_outcome high_potential (influencers ?r)) (\<lambda>highPotential.
             Returns (if length highPotential > 0
                      then [collaboration_opportunity highPotential] else []))
      else Returns []"
  from assms obtain first where f: "?one = Returns first"
    by (cases ?one) (simp_all add: generateInsights_def Let_def)
  from assms f obtain second where s: "?two = Returns second"
    by (cases ?two) (simp_all add: generateInsights_def Let_def)
  from assms f s obtain extra where
    "this' = this\<lparr>this_report := ?r\<lparr>insights := insights ?r @ extra\<rparr>\<rparr>"
    by (auto simp: generateInsights_def Let_def)
  then show "competitors (this_report this') = competitors (this_report this)"
    and "recommendations (this_report this') = recommendations (this_report this)"
    by simp_all
qed

lemma generateRecommendations_fetched:
  assumes "generateRecommendations this = Returns this'" and "fetched this"
  shows "filter (has_type ''engagement-strategy'') (recommendations (this_report this'))
       = filter (has_type ''engagement-strategy'') (recommendations (this_report this))"
proof -
  have "list_all stored_top (concat (map topTweets (competitors (this_report this))))"
    using assms(2) by (auto simp: fetched_def list_all_iff)
  then have avg: "calculateAverageEngagement (concat (map topTweets (competitors (this_report this))))
      = Returns \<lparr>likes = 0, retweets = 0, replies = 0\<rparr>"
    by (rule average_of_stored)
  from assms(1) obtain gapCounts where
    "recommendations (this_report this') = recommendations (this_report this)
       @ map content_opportunity (filter (\<lambda>e. snd e > 0) (entries gapCounts))
       @ [posting_strategy]"
    unfolding generateRecommendations_def Let_def avg
    by (elim bind_Returns) auto
  moreover have "\<not> has_type ''engagement-strategy'' (content_opportunity e)" for e
    by (simp add: has_type_def content_opportunity_def)
  moreover have "\<not> has_type ''engagement-strategy'' posting_strategy"
    by (simp add: has_type_def posting_strategy_def)
  ultimately show ?thesis by (simp add: filter_empty_conv)
qed

lemma saveReport_frame:
  assumes "saveReport sys this = Returns this'"
  shows "recommendations (this_report this') = recommendations (this_report this)"
  using assms unfolding saveReport_def Let_def
  by (elim bind_Returns) auto

lemma example_run_means:
  "(case run (prints_post 1 0 10) example_sys example_intel both_categories 0 of
      Returns (i, k) \<Rightarrow>
        top_mean ''replies'' (this_report i) = 10 \<and> top_mean ''likes'' (this_report i) = 1
        \<and> k = 2
    | _ \<Rightarrow> False)"
  by code_simp

text \<open>
  Whatever the tool prints: a run that starts from a fetched instance (a fresh one is)
  and completes adds no \<open>engagement-strategy\<close> recommendation, because the averages
  \<open>generateRecommendations\<close> computes over the stored top posts are all 0.
\<close>

lemma run_never_recommends_engagement_strategy:
  assumes "run env sys this options n = Returns (this', n')" and "fetched this"
  shows "filter (has_type ''engagement-strategy'') (recommendations (this_report this'))
       = filter (has_type ''engagement-strategy'') (recommendations (this_report this))"
proof -
  define P where "P = (\<lambda>s :: intel \<times> nat. fetched (fst s)
      \<and> recommendations (this_report (fst s)) = recommendations (this_report this))"
  from assms(1) obtain s1 where
    1: "(if \<not> influencersOnly options then analyzeCompetitors env this n
         else Returns (this, n)) = Returns s1"
    and r1: "bind (if \<not> competitorsOnly options then analyzeInfluencers env (fst s1) (snd s1)
           else Returns s1) (\<lambda>s2.
         bind (identifyTrends env (fst s2) (snd s2)) (\<lambda>s3.
         bind (generateInsights (fst s3)) (\<lambda>i.
         bind (generateRecommendations i) (\<lambda>g.
         bind (saveReport sys g) (\<lambda>saved. Returns (saved, snd s3)))))) = Returns (this', n')"
    unfolding run_def by (rule bind_Returns)
  from r1 obtain s2 where
    2: "(if \<not> competitorsOnly options then analyzeInfluencers env (fst s1) (snd s1)
         else Returns s1) = Returns s2"
    and r2: "bind (identifyTrends env (fst s2) (snd s2)) (\<lambda>s3.
         bind (generateInsights (fst s3)) (\<lambda>i.
         bind (generateRecommendations i) (\<lambda>g.
         bind (saveReport sys g) (\<lambda>saved. Returns (saved, snd s3))))) = Returns (this', n')"
    by (rule bind_Returns)
  from r2 obtain s3 where
    3: "identifyTrends env (fst s2) (snd s2) = Returns s3"
    and r3: "bind (generateInsights (fst s3)) (\<lambda>i.
         bind (generateRecommendations i) (\<lambda>g.
         bind (saveReport sys g) (\<lambda>saved. Returns (saved, snd s3)))) = Returns (this', n')"
    by (rule bind_Returns)
  from r3 obtain i where
    4: "generateInsights (fst s3) = Returns i"
    and r4: "bind (generateRecommendations i) (\<lambda>g.
         bind (saveReport sys g) (\<lambda>saved. Returns (saved, snd s3))) = Returns (this', n')"
    by (rule bind_Returns)
  from r4 obtain g where
    5: "generateRecommendations i = Returns g"
    and r5: "bind (saveReport sys g) (\<lambda>saved. Returns (saved, snd s3)) = Returns (this', n')"
    by (rule bind_Returns)
  from r5 obtain saved where
    "saveReport sys g = Returns saved" and "Returns (saved, snd s3) = Returns (this', n')"
    by (rule bind_Returns)
  then have 6: "saveReport sys g = Returns this'" by simp
  have p0: "P (this, n)" using assms(2) by (simp add: P_def)
  have step1: "P a'" if "P a" "analyzeCompetitor env a x = Returns a'" for a x a'
    using analyzeCompetitor_fetched [OF that(2)] that(1) by (simp add: P_def)
  have step2: "P a'" if "P a" "analyzeInfluencer env a x = Returns a'" for a x a'
    using analyzeInfluencer_fetched [OF that(2)] that(1) by (simp add: P_def)
  have step3: "P a'" if "P a" "identifyTrend env a x = Returns a'" for a x a'
    using identifyTrend_fetched [OF that(2)] that(1) by (simp add: P_def)
  have p1: "P s1"
  proof (cases "influencersOnly options")
    case True
    with 1 p0 show ?thesis by simp
  next
    case False
    with 1 have "reduce (analyzeCompetitor env) (or_empty (cfg_competitors (this_config this)))
        (this, n) = Returns s1"
      by (simp add: analyzeCompetitors_def)
    then show ?thesis using p0 step1 by (rule reduce_invariant [where P = P])
  qed
  have p2: "P s2"
  proof (cases "competitorsOnly options")
    case True
    with 2 p1 show ?thesis by simp
  next
    case False
    with 2 have "reduce (analyzeInfluencer env) (or_empty (cfg_influencers (this_config (fst s1))))
        (fst s1, snd s1) = Returns s2"
      by (simp add: analyzeInfluencers_def)
    moreover have "P (fst s1, snd s1)" using p1 by simp
    ultimately show ?thesis using step2 by (rule reduce_invariant [where P = P])
  qed
  have p3: "P s3"
  proof -
    from 3 have "reduce (identifyTrend env) (take 3 (or_empty (cfg_keywords (this_config (fst s2)))))
        (fst s2, snd s2) = Returns s3"
      by (simp add: identifyTrends_def)
    moreover have "P (fst s2, snd s2)" using p2 by simp
    ultimately show ?thesis using step3 by (rule reduce_invariant [where P = P])
  qed
  have fi: "fetched i"
    using p3 generateInsights_frame(1) [OF 4] by (simp add: P_def fetched_def)
  have a: "recommendations (this_report this') = recommendations (this_report g)"
    by (rule saveReport_frame [OF 6])
  have b: "filter (has_type ''engagement-strategy'') (recommendations (this_report g))
      = filter (has_type ''engagement-strategy'') (recommendations (this_report i))"
    by (rule generateRecommendations_fetched [OF 5 fi])
  have c: "recommendations (this_report i) = recommendations (this_report (fst s3))"
    by (rule generateInsights_frame(2) [OF 4])
  have d: "recommendations (this_report (fst s3)) = recommendations (this_report this)"
    using p3 by (simp add: P_def)
  show ?thesis by (simp only: a b c d)
qed

lemma fresh_instance_fetched: "fetched (CompetitiveIntelligence brandName config time)"
  by (simp add: fetched_def CompetitiveIntelligence_def)

lemma run_never_recommends_engagement_strategy_example:
  "fetched example_intel
   \<and> (\<exists>this'. run (prints_post 1 0 10) example_sys example_intel both_categories 0
          = Returns (this', 2)
        \<and> top_mean ''replies'' (this_report this') = 10
        \<and> top_mean ''likes'' (this_report this') = 1
        \<and> filter (has_type ''engagement-strategy'') (recommendations (this_report this')) = [])"
proof (cases "run (prints_post 1 0 10) example_sys example_intel both_categories 0")
  case (Returns p)
  obtain i k where p: "p = (i, k)" by (cases p)
  have f: "fetched example_intel"
    unfolding example_intel_def by (rule fresh_instance_fetched)
  have none: "recommendations (this_report example_intel) = []"
    by (simp add: example_intel_def CompetitiveIntelligence_def)
  from example_run_means Returns p have m:
    "top_mean ''replies'' (this_report i) = 10" "top_mean ''likes'' (this_report i) = 1" "k = 2"
    by simp_all
  from run_never_recommends_engagement_strategy [of "prints_post 1 0 10" example_sys
      example_intel both_categories 0 i k] Returns p f
  have "filter (has_type ''engagement-strategy'') (recommendations (this_report i)) = []"
    by (simp add: none)
  with Returns p m have "run (prints_post 1 0 10) example_sys example_intel both_categories 0
          = Returns (i, 2)
        \<and> top_mean ''replies'' (this_report i) = 10
        \<and> top_mean ''likes'' (this_report i) = 1
        \<and> filter (has_type ''engagement-strategy'') (recommendations (this_report i)) = []"
    by simp
  then show ?thesis using f by (intro conjI exI [of _ i]) simp_all
next
  case (Throws e)
  with example_run_means show ?thesis by simp
next
  case Unmodelled
  with example_run_means show ?thesis by simp
qed

text \<open>The fixed posting strategy is always the last recommendation.\<close>

lemma generateRecommendations_posting_last:
  assumes "generateRecommendations this = Returns this'"
  shows "last (recommendations (this_report this')) = posting_strategy"
proof -
  from assms obtain gapCounts where g:
    "bind (calculateAverageEngagement (concat (map topTweets (competitors (this_report this)))))
       (\<lambda>avgEngagement. Returns (this\<lparr>this_report := (this_report this)\<lparr>recommendations :=
          recommendations (this_report this)
          @ map content_opportunity (filter (\<lambda>e. snd e > 0) (entries gapCounts))
          @ (if replies avgEngagement > likes avgEngagement then [engagement_strategy] else [])
          @ [posting_strategy]\<rparr>\<rparr>)) = Returns this'"
    unfolding generateRecommendations_def Let_def by (rule bind_Returns)
  from g obtain avgEngagement where
    "calculateAverageEngagement (concat (map topTweets (competitors (this_report this))))
       = Returns avgEngagement"
    and "Returns (this\<lparr>this_report := (this_report this)\<lparr>recommendations :=
          recommendations (this_report this)
          @ map content_opportunity (filter (\<lambda>e. snd e > 0) (entries gapCounts))
          @ (if replies avgEngagement > likes avgEngagement then [engagement_strategy] else [])
          @ [posting_strategy]\<rparr>\<rparr>) = Returns this'"
    by (rule bind_Returns)
  then have "recommendations (this_report this') =
      (recommendations (this_report this)
        @ map content_opportunity (filter (\<lambda>e. snd e > 0) (entries gapCounts))
        @ (if replies avgEngagement > likes avgEngagement then [engagement_strategy] else []))
      @ [posting_strategy]"
    by auto
  then show ?thesis by (simp only: last_snoc)
qed

end
